theory Spec2Isabelle
  imports Complex_Main "HOL-Library.Sublist"
begin

section \<open>Program text of the two tutorial scripts\<close>

text \<open>
  The repository holds two Python scripts, \<open>tutorials_cupy/poststack_cupy.py\<close> and
  \<open>tutorials_nccl/poststack_nccl.py\<close>. Neither defines a function or a class: each is a
  sequence of module-level statements that call NumPy, CuPy, SciPy, Matplotlib, mpi4py,
  PyLops and PyLops-MPI. The scripts are embedded as statement lists over the expression
  forms they use, and run by an evaluator in which every library operation is recorded in
  a trace.
\<close>

datatype binop = MatMul | Mult | Add | Div | FloorDiv | Mod | Eq

datatype expr =
    Name string
  | Num int
  | FloatLit string
  | Str string
  | BoolLit bool
  | Omitted
  | Attr expr string
  | Call expr "expr list"
  | Kw string expr
  | Tuple "expr list"
  | ListE "expr list"
  | Subscript expr expr
  | Slice expr expr expr
  | BinOp expr binop expr
  | Neg expr

datatype stmt =
    Import string "string option"
  | ImportFrom string string "string option"
  | Assign expr expr
  | ExprStmt expr
  | If expr "stmt list" "stmt list"
  | Try "stmt list" "stmt list"

subsection \<open>The script \<open>tutorials_cupy/poststack_cupy.py\<close>\<close>

text \<open>
  The script is cut at its comment rulers (the lines of hash signs); each block is a
  statement list, given with its line numbers in the source file.
\<close>

text \<open>The imports, lines 9 to 19.\<close>

definition cupy_imports :: "stmt list" where
  "cupy_imports =
  [
    Import ''numpy'' (Some ''np''),
    Import ''cupy'' (Some ''cp''),
    ImportFrom ''scipy.signal'' ''filtfilt'' None,
    ImportFrom ''matplotlib'' ''pyplot'' (Some ''plt''),
    ImportFrom ''mpi4py'' ''MPI'' None,
    ImportFrom ''pylops.utils.wavelets'' ''ricker'' None,
    ImportFrom ''pylops.basicoperators'' ''Transpose'' None,
    ImportFrom ''pylops.avo.poststack'' ''PoststackLinearModelling'' None,
    Import ''pylops_mpi'' None
  ]"

text \<open>Communicator and device set-up, lines 30 to 33.\<close>

definition cupy_init :: "stmt list" where
  "cupy_init =
  [
    ExprStmt (Call (Attr (Name ''plt'') ''close'') [Str ''all'']),
    Assign (Name ''rank'') (Call (Attr (Attr (Name ''MPI'') ''COMM_WORLD'') ''Get_rank'') []),
    Assign (Name ''device_count'') (Call (Attr (Attr (Attr (Name ''cp'') ''cuda'') ''runtime'')
        ''getDeviceCount'') []),
    ExprStmt (Call (Attr (Call (Attr (Attr (Name ''cp'') ''cuda'') ''Device'') [BinOp (Name
        ''rank'') Mod (Name ''device_count'')]) ''use'') [])
  ]"

text \<open>Model, smoothing, wavelet and gathering, lines 42 to 68.\<close>

definition cupy_model :: "stmt list" where
  "cupy_model =
  [
    Assign (Name ''model'') (Call (Attr (Name ''np'') ''load'') [Str
        ''../testdata/avo/poststack_model.npz'']),
    Assign (Tuple [Name ''x'', Name ''z'', Name ''m'']) (Tuple [Subscript (Subscript (Name
        ''model'') (Str ''x'')) (Slice Omitted Omitted (Num 3)), Subscript (Name ''model'') (Str
        ''z''), Subscript (Call (Attr (Name ''np'') ''log'') [Subscript (Name ''model'') (Str
        ''model'')]) (Tuple [Slice Omitted Omitted Omitted, Slice Omitted Omitted (Num 3)])]),
    Assign (Name ''ny_i'') (Num 20),
    Assign (Name ''y'') (Call (Attr (Name ''np'') ''arange'') [Name ''ny_i'']),
    Assign (Name ''m3d_i'') (Call (Attr (Call (Attr (Name ''np'') ''tile'') [Subscript (Name
        ''m'') (Tuple [Slice Omitted Omitted Omitted, Slice Omitted Omitted Omitted, Attr (Name
        ''np'') ''newaxis'']), Tuple [Num 1, Num 1, Name ''ny_i'']]) ''transpose'') [Tuple [Num
        2, Num 1, Num 0]]),
    Assign (Tuple [Name ''ny_i'', Name ''nx'', Name ''nz'']) (Attr (Name ''m3d_i'') ''shape''),
    Assign (Name ''ny'') (Call (Attr (Attr (Name ''MPI'') ''COMM_WORLD'') ''allreduce'') [Name
        ''ny_i'']),
    Assign (Tuple [Name ''nsmoothy'', Name ''nsmoothx'', Name ''nsmoothz'']) (Tuple [Num 5, Num
        30, Num 20]),
    Assign (Name ''mback3d_i'') (Call (Name ''filtfilt'') [BinOp (Call (Attr (Name ''np'')
        ''ones'') [Name ''nsmoothy'']) Div (Call (Name ''float'') [Name ''nsmoothy'']), Num 1,
        Name ''m3d_i'', Kw ''axis'' (Num 0)]),
    Assign (Name ''mback3d_i'') (Call (Name ''filtfilt'') [BinOp (Call (Attr (Name ''np'')
        ''ones'') [Name ''nsmoothx'']) Div (Call (Name ''float'') [Name ''nsmoothx'']), Num 1,
        Name ''mback3d_i'', Kw ''axis'' (Num 1)]),
    Assign (Name ''mback3d_i'') (Call (Name ''filtfilt'') [BinOp (Call (Attr (Name ''np'')
        ''ones'') [Name ''nsmoothz'']) Div (Call (Name ''float'') [Name ''nsmoothz'']), Num 1,
        Name ''mback3d_i'', Kw ''axis'' (Num 2)]),
    Assign (Name ''dt'') (FloatLit ''0.004''),
    Assign (Name ''t0'') (BinOp (Call (Attr (Name ''np'') ''arange'') [Name ''nz'']) Mult (Name
        ''dt'')),
    Assign (Name ''ntwav'') (Num 41),
    Assign (Name ''wav'') (Subscript (Call (Name ''ricker'') [Subscript (Name ''t0'') (Slice
        Omitted (BinOp (BinOp (Name ''ntwav'') FloorDiv (Num 2)) Add (Num 1)) Omitted), Num 15])
        (Num 0)),
    Assign (Name ''m3d'') (Call (Attr (Name ''np'') ''concatenate'') [Call (Attr (Attr (Name
        ''MPI'') ''COMM_WORLD'') ''allgather'') [Name ''m3d_i'']]),
    Assign (Name ''mback3d'') (Call (Attr (Name ''np'') ''concatenate'') [Call (Attr (Attr (Name
        ''MPI'') ''COMM_WORLD'') ''allgather'') [Name ''mback3d_i'']])
  ]"

text \<open>Distributed arrays of the model and of the smooth model, lines 75 to 82.\<close>

definition cupy_arrays :: "stmt list" where
  "cupy_arrays =
  [
    Assign (Name ''m3d_dist'') (Call (Attr (Name ''pylops_mpi'') ''DistributedArray'') [Kw
        ''global_shape'' (BinOp (BinOp (Name ''ny'') Mult (Name ''nx'')) Mult (Name ''nz'')), Kw
        ''engine'' (Str ''cupy'')]),
    Assign (Subscript (Name ''m3d_dist'') (Slice Omitted Omitted Omitted)) (Call (Attr (Name
        ''cp'') ''asarray'') [Call (Attr (Name ''m3d_i'') ''flatten'') []]),
    Assign (Name ''mback3d_dist'') (Call (Attr (Name ''pylops_mpi'') ''DistributedArray'') [Kw
        ''global_shape'' (BinOp (BinOp (Name ''ny'') Mult (Name ''nx'')) Mult (Name ''nz'')), Kw
        ''engine'' (Str ''cupy'')]),
    Assign (Subscript (Name ''mback3d_dist'') (Slice Omitted Omitted Omitted)) (Call (Attr (Name
        ''cp'') ''asarray'') [Call (Attr (Name ''mback3d_i'') ''flatten'') []])
  ]"

text \<open>The modelling operator, lines 90 to 93.\<close>

definition cupy_operator :: "stmt list" where
  "cupy_operator =
  [
    Assign (Name ''PPop'') (Call (Name ''PoststackLinearModelling'') [Call (Attr (Name ''cp'')
        ''asarray'') [Call (Attr (Name ''wav'') ''astype'') [Attr (Name ''np'') ''float32'']],
        Kw ''nt0'' (Name ''nz''), Kw ''spatdims'' (Tuple [Name ''ny_i'', Name ''nx''])]),
    Assign (Name ''Top'') (Call (Name ''Transpose'') [Tuple [Name ''ny_i'', Name ''nx'', Name
        ''nz''], Tuple [Num 2, Num 0, Num 1]]),
    Assign (Name ''BDiag'') (Call (Attr (Attr (Name ''pylops_mpi'') ''basicoperators'')
        ''MPIBlockDiag'') [Kw ''ops'' (ListE [BinOp (BinOp (Attr (Name ''Top'') ''H'') MatMul
        (Name ''PPop'')) MatMul (Name ''Top'')])])
  ]"

text \<open>Modelled data, lines 100 to 104.\<close>

definition cupy_data :: "stmt list" where
  "cupy_data =
  [
    Assign (Name ''d_dist'') (BinOp (Name ''BDiag'') MatMul (Name ''m3d_dist'')),
    Assign (Name ''d_local'') (Call (Attr (Attr (Name ''d_dist'') ''local_array'') ''reshape'')
        [Tuple [Name ''ny_i'', Name ''nx'', Name ''nz'']]),
    Assign (Name ''d'') (Call (Attr (Call (Attr (Name ''d_dist'') ''asarray'') []) ''reshape'')
        [Tuple [Name ''ny'', Name ''nx'', Name ''nz'']]),
    Assign (Name ''d_0_dist'') (BinOp (Name ''BDiag'') MatMul (Name ''mback3d_dist'')),
    Assign (Name ''d_0'') (Call (Attr (Call (Attr (Name ''d_dist'') ''asarray'') [])
        ''reshape'') [Tuple [Name ''ny'', Name ''nx'', Name ''nz'']])
  ]"

text \<open>Inversion with CGLS, lines 113 to 116.\<close>

definition cupy_cgls :: "stmt list" where
  "cupy_cgls =
  [
    Assign (Name ''minv3d_iter_dist'') (Subscript (Call (Attr (Attr (Attr (Name ''pylops_mpi'')
        ''optimization'') ''basic'') ''cgls'') [Name ''BDiag'', Name ''d_dist'', Kw ''x0'' (Name
        ''mback3d_dist''), Kw ''niter'' (Num 100), Kw ''show'' (BoolLit True)]) (Num 0)),
    Assign (Name ''minv3d_iter'') (Call (Attr (Call (Attr (Name ''minv3d_iter_dist'')
        ''asarray'') []) ''reshape'') [Tuple [Name ''ny'', Name ''nx'', Name ''nz'']])
  ]"

text \<open>Regularized inversion with normal equations, lines 121 to 131.\<close>

definition cupy_normal :: "stmt list" where
  "cupy_normal =
  [
    Assign (Name ''epsR'') (FloatLit ''1e2''),
    Assign (Name ''LapOp'') (Call (Attr (Name ''pylops_mpi'') ''MPILaplacian'') [Kw ''dims''
        (Tuple [Name ''ny'', Name ''nx'', Name ''nz'']), Kw ''axes'' (Tuple [Num 0, Num 1, Num
        2]), Kw ''weights'' (Tuple [Num 1, Num 1, Num 1]), Kw ''sampling'' (Tuple [Num 1, Num 1,
        Num 1]), Kw ''dtype'' (Attr (Name ''BDiag'') ''dtype'')]),
    Assign (Name ''NormEqOp'') (BinOp (BinOp (Attr (Name ''BDiag'') ''H'') MatMul (Name
        ''BDiag'')) Add (BinOp (BinOp (Name ''epsR'') Mult (Attr (Name ''LapOp'') ''H'')) MatMul
        (Name ''LapOp''))),
    Assign (Name ''dnorm_dist'') (BinOp (Attr (Name ''BDiag'') ''H'') MatMul (Name ''d_dist'')),
    Assign (Name ''minv3d_ne_dist'') (Subscript (Call (Attr (Attr (Attr (Name ''pylops_mpi'')
        ''optimization'') ''basic'') ''cg'') [Name ''NormEqOp'', Name ''dnorm_dist'', Kw ''x0''
        (Name ''mback3d_dist''), Kw ''niter'' (Num 100), Kw ''show'' (BoolLit True)]) (Num 0)),
    Assign (Name ''minv3d_ne'') (Call (Attr (Call (Attr (Name ''minv3d_ne_dist'') ''asarray'')
        []) ''reshape'') [Tuple [Name ''ny'', Name ''nx'', Name ''nz'']])
  ]"

text \<open>Regularized inversion with regularized equations, lines 136 to 145.\<close>

definition cupy_stacked :: "stmt list" where
  "cupy_stacked =
  [
    Assign (Name ''StackOp'') (Call (Attr (Name ''pylops_mpi'') ''MPIStackedVStack'') [ListE
        [Name ''BDiag'', BinOp (Call (Attr (Name ''np'') ''sqrt'') [Name ''epsR'']) Mult (Name
        ''LapOp'')]]),
    Assign (Name ''d0_dist'') (Call (Attr (Name ''pylops_mpi'') ''DistributedArray'') [Kw
        ''global_shape'' (BinOp (BinOp (Name ''ny'') Mult (Name ''nx'')) Mult (Name ''nz'')), Kw
        ''engine'' (Str ''cupy'')]),
    Assign (Subscript (Name ''d0_dist'') (Slice Omitted Omitted Omitted)) (FloatLit ''0.''),
    Assign (Name ''dstack_dist'') (Call (Attr (Name ''pylops_mpi'') ''StackedDistributedArray'')
        [ListE [Name ''d_dist'', Name ''d0_dist'']]),
    Assign (Name ''dnorm_dist'') (BinOp (Attr (Name ''BDiag'') ''H'') MatMul (Name ''d_dist'')),
    Assign (Name ''minv3d_reg_dist'') (Subscript (Call (Attr (Attr (Attr (Name ''pylops_mpi'')
        ''optimization'') ''basic'') ''cgls'') [Name ''StackOp'', Name ''dstack_dist'', Kw
        ''x0'' (Name ''mback3d_dist''), Kw ''niter'' (Num 100), Kw ''show'' (BoolLit True)])
        (Num 0)),
    Assign (Name ''minv3d_reg'') (Call (Attr (Call (Attr (Name ''minv3d_reg_dist'') ''asarray'')
        []) ''reshape'') [Tuple [Name ''ny'', Name ''nx'', Name ''nz'']])
  ]"

text \<open>Inside the conditional: the comparison with a single-process modelling, lines 154 to 160.\<close>

definition cupy_check :: "stmt list" where
  "cupy_check =
  [
    Assign (Name ''PPop0'') (Call (Name ''PoststackLinearModelling'') [Name ''wav'', Kw ''nt0''
        (Name ''nz''), Kw ''spatdims'' (Tuple [Name ''ny'', Name ''nx''])]),
    Assign (Name ''d0'') (Call (Attr (BinOp (Name ''PPop0'') MatMul (Call (Attr (Name ''m3d'')
        ''transpose'') [Num 2, Num 0, Num 1])) ''transpose'') [Num 1, Num 2, Num 0]),
    Assign (Name ''d0_0'') (Call (Attr (BinOp (Name ''PPop0'') MatMul (Call (Attr (Name ''m3d'')
        ''transpose'') [Num 2, Num 0, Num 1])) ''transpose'') [Num 1, Num 2, Num 0]),
    ExprStmt (Call (Name ''print'') [Str ''Distr == Local'', Call (Attr (Name ''np'')
        ''allclose'') [Call (Attr (Name ''cp'') ''asnumpy'') [Name ''d''], Name ''d0'', Kw
        ''atol'' (FloatLit ''1e-6'')]]),
    ExprStmt (Call (Name ''print'') [Str ''Smooth Distr == Local'', Call (Attr (Name ''np'')
        ''allclose'') [Call (Attr (Name ''cp'') ''asnumpy'') [Name ''d_0''], Name ''d0_0'', Kw
        ''atol'' (FloatLit ''1e-6'')]])
  ]"

text \<open>Inside the conditional: the figure, lines 163 to 222.\<close>

definition cupy_plots :: "stmt list" where
  "cupy_plots =
  [
    Assign (Tuple [Name ''fig'', Name ''axs'']) (Call (Attr (Name ''plt'') ''subplots'') [Kw
        ''nrows'' (Num 6), Kw ''ncols'' (Num 3), Kw ''figsize'' (Tuple [Num 9, Num 14]), Kw
        ''constrained_layout'' (BoolLit True)]),
    ExprStmt (Call (Attr (Subscript (Subscript (Name ''axs'') (Num 0)) (Num 0)) ''imshow'')
        [Attr (Subscript (Name ''m3d'') (Tuple [Num 5, Slice Omitted Omitted Omitted, Slice
        Omitted Omitted Omitted])) ''T'', Kw ''cmap'' (Str ''gist_rainbow''), Kw ''vmin'' (Call
        (Attr (Name ''m'') ''min'') []), Kw ''vmax'' (Call (Attr (Name ''m'') ''max'') [])]),
    ExprStmt (Call (Attr (Subscript (Subscript (Name ''axs'') (Num 0)) (Num 0)) ''set_title'')
        [Str ''Model x-z'']),
    ExprStmt (Call (Attr (Subscript (Subscript (Name ''axs'') (Num 0)) (Num 0)) ''axis'') [Str
        ''tight'']),
    ExprStmt (Call (Attr (Subscript (Subscript (Name ''axs'') (Num 0)) (Num 1)) ''imshow'')
        [Attr (Subscript (Name ''m3d'') (Tuple [Slice Omitted Omitted Omitted, Num 200, Slice
        Omitted Omitted Omitted])) ''T'', Kw ''cmap'' (Str ''gist_rainbow''), Kw ''vmin'' (Call
        (Attr (Name ''m'') ''min'') []), Kw ''vmax'' (Call (Attr (Name ''m'') ''max'') [])]),
    ExprStmt (Call (Attr (Subscript (Subscript (Name ''axs'') (Num 0)) (Num 1)) ''set_title'')
        [Str ''Model y-z'']),
    ExprStmt (Call (Attr (Subscript (Subscript (Name ''axs'') (Num 0)) (Num 1)) ''axis'') [Str
        ''tight'']),
    ExprStmt (Call (Attr (Subscript (Subscript (Name ''axs'') (Num 0)) (Num 2)) ''imshow'')
        [Attr (Subscript (Name ''m3d'') (Tuple [Slice Omitted Omitted Omitted, Slice Omitted
        Omitted Omitted, Num 220])) ''T'', Kw ''cmap'' (Str ''gist_rainbow''), Kw ''vmin'' (Call
        (Attr (Name ''m'') ''min'') []), Kw ''vmax'' (Call (Attr (Name ''m'') ''max'') [])]),
    ExprStmt (Call (Attr (Subscript (Subscript (Name ''axs'') (Num 0)) (Num 2)) ''set_title'')
        [Str ''Model y-z'']),
    ExprStmt (Call (Attr (Subscript (Subscript (Name ''axs'') (Num 0)) (Num 2)) ''axis'') [Str
        ''tight'']),
    ExprStmt (Call (Attr (Subscript (Subscript (Name ''axs'') (Num 1)) (Num 0)) ''imshow'')
        [Attr (Subscript (Name ''mback3d'') (Tuple [Num 5, Slice Omitted Omitted Omitted, Slice
        Omitted Omitted Omitted])) ''T'', Kw ''cmap'' (Str ''gist_rainbow''), Kw ''vmin'' (Call
        (Attr (Name ''m'') ''min'') []), Kw ''vmax'' (Call (Attr (Name ''m'') ''max'') [])]),
    ExprStmt (Call (Attr (Subscript (Subscript (Name ''axs'') (Num 1)) (Num 0)) ''set_title'')
        [Str ''Smooth Model x-z'']),
    ExprStmt (Call (Attr (Subscript (Subscript (Name ''axs'') (Num 1)) (Num 0)) ''axis'') [Str
        ''tight'']),
    ExprStmt (Call (Attr (Subscript (Subscript (Name ''axs'') (Num 1)) (Num 1)) ''imshow'')
        [Attr (Subscript (Name ''mback3d'') (Tuple [Slice Omitted Omitted Omitted, Num 200,
        Slice Omitted Omitted Omitted])) ''T'', Kw ''cmap'' (Str ''gist_rainbow''), Kw ''vmin''
        (Call (Attr (Name ''m'') ''min'') []), Kw ''vmax'' (Call (Attr (Name ''m'') ''max'')
        [])]),
    ExprStmt (Call (Attr (Subscript (Subscript (Name ''axs'') (Num 1)) (Num 1)) ''set_title'')
        [Str ''Smooth Model y-z'']),
    ExprStmt (Call (Attr (Subscript (Subscript (Name ''axs'') (Num 1)) (Num 1)) ''axis'') [Str
        ''tight'']),
    ExprStmt (Call (Attr (Subscript (Subscript (Name ''axs'') (Num 1)) (Num 2)) ''imshow'')
        [Attr (Subscript (Name ''mback3d'') (Tuple [Slice Omitted Omitted Omitted, Slice Omitted
        Omitted Omitted, Num 220])) ''T'', Kw ''cmap'' (Str ''gist_rainbow''), Kw ''vmin'' (Call
        (Attr (Name ''m'') ''min'') []), Kw ''vmax'' (Call (Attr (Name ''m'') ''max'') [])]),
    ExprStmt (Call (Attr (Subscript (Subscript (Name ''axs'') (Num 1)) (Num 2)) ''set_title'')
        [Str ''Smooth Model y-z'']),
    ExprStmt (Call (Attr (Subscript (Subscript (Name ''axs'') (Num 1)) (Num 2)) ''axis'') [Str
        ''tight'']),
    ExprStmt (Call (Attr (Subscript (Subscript (Name ''axs'') (Num 2)) (Num 0)) ''imshow'')
        [Call (Attr (Attr (Subscript (Name ''d'') (Tuple [Num 5, Slice Omitted Omitted Omitted,
        Slice Omitted Omitted Omitted])) ''T'') ''get'') [], Kw ''cmap'' (Str ''gray''), Kw
        ''vmin'' (Neg (Num 1)), Kw ''vmax'' (Num 1)]),
    ExprStmt (Call (Attr (Subscript (Subscript (Name ''axs'') (Num 2)) (Num 0)) ''set_title'')
        [Str ''Data x-z'']),
    ExprStmt (Call (Attr (Subscript (Subscript (Name ''axs'') (Num 2)) (Num 0)) ''axis'') [Str
        ''tight'']),
    ExprStmt (Call (Attr (Subscript (Subscript (Name ''axs'') (Num 2)) (Num 1)) ''imshow'')
        [Call (Attr (Attr (Subscript (Name ''d'') (Tuple [Slice Omitted Omitted Omitted, Num
        200, Slice Omitted Omitted Omitted])) ''T'') ''get'') [], Kw ''cmap'' (Str ''gray''), Kw
        ''vmin'' (Neg (Num 1)), Kw ''vmax'' (Num 1)]),
    ExprStmt (Call (Attr (Subscript (Subscript (Name ''axs'') (Num 2)) (Num 1)) ''set_title'')
        [Str ''Data y-z'']),
    ExprStmt (Call (Attr (Subscript (Subscript (Name ''axs'') (Num 2)) (Num 1)) ''axis'') [Str
        ''tight'']),
    ExprStmt (Call (Attr (Subscript (Subscript (Name ''axs'') (Num 2)) (Num 2)) ''imshow'')
        [Call (Attr (Attr (Subscript (Name ''d'') (Tuple [Slice Omitted Omitted Omitted, Slice
        Omitted Omitted Omitted, Num 220])) ''T'') ''get'') [], Kw ''cmap'' (Str ''gray''), Kw
        ''vmin'' (Neg (Num 1)), Kw ''vmax'' (Num 1)]),
    ExprStmt (Call (Attr (Subscript (Subscript (Name ''axs'') (Num 2)) (Num 2)) ''set_title'')
        [Str ''Data x-y'']),
    ExprStmt (Call (Attr (Subscript (Subscript (Name ''axs'') (Num 2)) (Num 2)) ''axis'') [Str
        ''tight'']),
    ExprStmt (Call (Attr (Subscript (Subscript (Name ''axs'') (Num 3)) (Num 0)) ''imshow'')
        [Call (Attr (Attr (Subscript (Name ''minv3d_iter'') (Tuple [Num 5, Slice Omitted Omitted
        Omitted, Slice Omitted Omitted Omitted])) ''T'') ''get'') [], Kw ''cmap'' (Str
        ''gist_rainbow''), Kw ''vmin'' (Call (Attr (Name ''m'') ''min'') []), Kw ''vmax'' (Call
        (Attr (Name ''m'') ''max'') [])]),
    ExprStmt (Call (Attr (Subscript (Subscript (Name ''axs'') (Num 3)) (Num 0)) ''set_title'')
        [Str ''Inverted Model iter x-z'']),
    ExprStmt (Call (Attr (Subscript (Subscript (Name ''axs'') (Num 3)) (Num 0)) ''axis'') [Str
        ''tight'']),
    ExprStmt (Call (Attr (Subscript (Subscript (Name ''axs'') (Num 3)) (Num 1)) ''imshow'')
        [Call (Attr (Attr (Subscript (Name ''minv3d_iter'') (Tuple [Slice Omitted Omitted
        Omitted, Num 200, Slice Omitted Omitted Omitted])) ''T'') ''get'') [], Kw ''cmap'' (Str
        ''gist_rainbow''), Kw ''vmin'' (Call (Attr (Name ''m'') ''min'') []), Kw ''vmax'' (Call
        (Attr (Name ''m'') ''max'') [])]),
    ExprStmt (Call (Attr (Subscript (Subscript (Name ''axs'') (Num 3)) (Num 1)) ''set_title'')
        [Str ''Inverted Model iter y-z'']),
    ExprStmt (Call (Attr (Subscript (Subscript (Name ''axs'') (Num 3)) (Num 1)) ''axis'') [Str
        ''tight'']),
    ExprStmt (Call (Attr (Subscript (Subscript (Name ''axs'') (Num 3)) (Num 2)) ''imshow'')
        [Call (Attr (Attr (Subscript (Name ''minv3d_iter'') (Tuple [Slice Omitted Omitted
        Omitted, Slice Omitted Omitted Omitted, Num 220])) ''T'') ''get'') [], Kw ''cmap'' (Str
        ''gist_rainbow''), Kw ''vmin'' (Call (Attr (Name ''m'') ''min'') []), Kw ''vmax'' (Call
        (Attr (Name ''m'') ''max'') [])]),
    ExprStmt (Call (Attr (Subscript (Subscript (Name ''axs'') (Num 3)) (Num 2)) ''set_title'')
        [Str ''Inverted Model iter x-y'']),
    ExprStmt (Call (Attr (Subscript (Subscript (Name ''axs'') (Num 3)) (Num 2)) ''axis'') [Str
        ''tight'']),
    ExprStmt (Call (Attr (Subscript (Subscript (Name ''axs'') (Num 4)) (Num 0)) ''imshow'')
        [Call (Attr (Attr (Subscript (Name ''minv3d_ne'') (Tuple [Num 5, Slice Omitted Omitted
        Omitted, Slice Omitted Omitted Omitted])) ''T'') ''get'') [], Kw ''cmap'' (Str
        ''gist_rainbow''), Kw ''vmin'' (Call (Attr (Name ''m'') ''min'') []), Kw ''vmax'' (Call
        (Attr (Name ''m'') ''max'') [])]),
    ExprStmt (Call (Attr (Subscript (Subscript (Name ''axs'') (Num 4)) (Num 0)) ''set_title'')
        [Str ''Normal Equations Inverted Model iter x-z'']),
    ExprStmt (Call (Attr (Subscript (Subscript (Name ''axs'') (Num 4)) (Num 0)) ''axis'') [Str
        ''tight'']),
    ExprStmt (Call (Attr (Subscript (Subscript (Name ''axs'') (Num 4)) (Num 1)) ''imshow'')
        [Call (Attr (Attr (Subscript (Name ''minv3d_ne'') (Tuple [Slice Omitted Omitted Omitted,
        Num 200, Slice Omitted Omitted Omitted])) ''T'') ''get'') [], Kw ''cmap'' (Str
        ''gist_rainbow''), Kw ''vmin'' (Call (Attr (Name ''m'') ''min'') []), Kw ''vmax'' (Call
        (Attr (Name ''m'') ''max'') [])]),
    ExprStmt (Call (Attr (Subscript (Subscript (Name ''axs'') (Num 4)) (Num 1)) ''set_title'')
        [Str ''Normal Equations Inverted Model iter y-z'']),
    ExprStmt (Call (Attr (Subscript (Subscript (Name ''axs'') (Num 4)) (Num 1)) ''axis'') [Str
        ''tight'']),
    ExprStmt (Call (Attr (Subscript (Subscript (Name ''axs'') (Num 4)) (Num 2)) ''imshow'')
        [Call (Attr (Attr (Subscript (Name ''minv3d_ne'') (Tuple [Slice Omitted Omitted Omitted,
        Slice Omitted Omitted Omitted, Num 220])) ''T'') ''get'') [], Kw ''cmap'' (Str
        ''gist_rainbow''), Kw ''vmin'' (Call (Attr (Name ''m'') ''min'') []), Kw ''vmax'' (Call
        (Attr (Name ''m'') ''max'') [])]),
    ExprStmt (Call (Attr (Subscript (Subscript (Name ''axs'') (Num 4)) (Num 2)) ''set_title'')
        [Str ''Normal Equations Inverted Model iter x-y'']),
    ExprStmt (Call (Attr (Subscript (Subscript (Name ''axs'') (Num 4)) (Num 2)) ''axis'') [Str
        ''tight'']),
    ExprStmt (Call (Attr (Subscript (Subscript (Name ''axs'') (Num 5)) (Num 0)) ''imshow'')
        [Call (Attr (Attr (Subscript (Name ''minv3d_reg'') (Tuple [Num 5, Slice Omitted Omitted
        Omitted, Slice Omitted Omitted Omitted])) ''T'') ''get'') [], Kw ''cmap'' (Str
        ''gist_rainbow''), Kw ''vmin'' (Call (Attr (Name ''m'') ''min'') []), Kw ''vmax'' (Call
        (Attr (Name ''m'') ''max'') [])]),
    ExprStmt (Call (Attr (Subscript (Subscript (Name ''axs'') (Num 5)) (Num 0)) ''set_title'')
        [Str ''Regularized Inverted Model iter x-z'']),
    ExprStmt (Call (Attr (Subscript (Subscript (Name ''axs'') (Num 5)) (Num 0)) ''axis'') [Str
        ''tight'']),
    ExprStmt (Call (Attr (Subscript (Subscript (Name ''axs'') (Num 5)) (Num 1)) ''imshow'')
        [Call (Attr (Attr (Subscript (Name ''minv3d_reg'') (Tuple [Slice Omitted Omitted
        Omitted, Num 200, Slice Omitted Omitted Omitted])) ''T'') ''get'') [], Kw ''cmap'' (Str
        ''gist_rainbow''), Kw ''vmin'' (Call (Attr (Name ''m'') ''min'') []), Kw ''vmax'' (Call
        (Attr (Name ''m'') ''max'') [])]),
    ExprStmt (Call (Attr (Subscript (Subscript (Name ''axs'') (Num 5)) (Num 1)) ''set_title'')
        [Str ''Regularized Inverted Model iter y-z'']),
    ExprStmt (Call (Attr (Subscript (Subscript (Name ''axs'') (Num 5)) (Num 1)) ''axis'') [Str
        ''tight'']),
    ExprStmt (Call (Attr (Subscript (Subscript (Name ''axs'') (Num 5)) (Num 2)) ''imshow'')
        [Call (Attr (Attr (Subscript (Name ''minv3d_reg'') (Tuple [Slice Omitted Omitted
        Omitted, Slice Omitted Omitted Omitted, Num 220])) ''T'') ''get'') [], Kw ''cmap'' (Str
        ''gist_rainbow''), Kw ''vmin'' (Call (Attr (Name ''m'') ''min'') []), Kw ''vmax'' (Call
        (Attr (Name ''m'') ''max'') [])]),
    ExprStmt (Call (Attr (Subscript (Subscript (Name ''axs'') (Num 5)) (Num 2)) ''set_title'')
        [Str ''Regularized Inverted Model iter x-y'']),
    ExprStmt (Call (Attr (Subscript (Subscript (Name ''axs'') (Num 5)) (Num 2)) ''axis'') [Str
        ''tight''])
  ]"

text \<open>The conditional of line 151, which has no \<open>else\<close> branch.\<close>

definition cupy_report :: "stmt list" where
  "cupy_report = [If (BinOp (Name ''rank'') Eq (Num 0)) (cupy_check @ cupy_plots) []]"

text \<open>The whole script. Its docstring, a string expression with no effect, is left out.\<close>

definition poststack_cupy :: "stmt list" where
  "poststack_cupy =
     cupy_imports @ cupy_init @ cupy_model @ cupy_arrays @ cupy_operator
     @ cupy_data @ cupy_cgls @ cupy_normal @ cupy_stacked @ cupy_report"

subsection \<open>The script \<open>tutorials_nccl/poststack_nccl.py\<close>\<close>

text \<open>The imports, lines 9 to 19.\<close>

definition nccl_imports :: "stmt list" where
  "nccl_imports =
  [
    Import ''numpy'' (Some ''np''),
    Import ''cupy'' (Some ''cp''),
    ImportFrom ''scipy.signal'' ''filtfilt'' None,
    ImportFrom ''matplotlib'' ''pyplot'' (Some ''plt''),
    ImportFrom ''mpi4py'' ''MPI'' None,
    ImportFrom ''pylops.utils.wavelets'' ''ricker'' None,
    ImportFrom ''pylops.basicoperators'' ''Transpose'' None,
    ImportFrom ''pylops.avo.poststack'' ''PoststackLinearModelling'' None,
    Import ''pylops_mpi'' None
  ]"

text \<open>Communicator and device set-up, lines 26 to 28.\<close>

definition nccl_init :: "stmt list" where
  "nccl_init =
  [
    ExprStmt (Call (Attr (Name ''plt'') ''close'') [Str ''all'']),
    Assign (Name ''nccl_comm'') (Call (Attr (Attr (Attr (Name ''pylops_mpi'') ''utils'')
        ''_nccl'') ''initialize_nccl_comm'') []),
    Assign (Name ''rank'') (Call (Attr (Attr (Name ''MPI'') ''COMM_WORLD'') ''Get_rank'') [])
  ]"

text \<open>Model, smoothing, wavelet and gathering, lines 37 to 63.\<close>

definition nccl_model :: "stmt list" where
  "nccl_model =
  [
    Assign (Name ''model'') (Call (Attr (Name ''np'') ''load'') [Str
        ''../testdata/avo/poststack_model.npz'']),
    Assign (Tuple [Name ''x'', Name ''z'', Name ''m'']) (Tuple [Subscript (Subscript (Name
        ''model'') (Str ''x'')) (Slice Omitted Omitted (Num 3)), Subscript (Name ''model'') (Str
        ''z''), Subscript (Call (Attr (Name ''np'') ''log'') [Subscript (Name ''model'') (Str
        ''model'')]) (Tuple [Slice Omitted Omitted Omitted, Slice Omitted Omitted (Num 3)])]),
    Assign (Name ''ny_i'') (Num 20),
    Assign (Name ''y'') (Call (Attr (Name ''np'') ''arange'') [Name ''ny_i'']),
    Assign (Name ''m3d_i'') (Call (Attr (Call (Attr (Name ''np'') ''tile'') [Subscript (Name
        ''m'') (Tuple [Slice Omitted Omitted Omitted, Slice Omitted Omitted Omitted, Attr (Name
        ''np'') ''newaxis'']), Tuple [Num 1, Num 1, Name ''ny_i'']]) ''transpose'') [Tuple [Num
        2, Num 1, Num 0]]),
    Assign (Tuple [Name ''ny_i'', Name ''nx'', Name ''nz'']) (Attr (Name ''m3d_i'') ''shape''),
    Assign (Name ''ny'') (Call (Attr (Attr (Name ''MPI'') ''COMM_WORLD'') ''allreduce'') [Name
        ''ny_i'']),
    Assign (Tuple [Name ''nsmoothy'', Name ''nsmoothx'', Name ''nsmoothz'']) (Tuple [Num 5, Num
        30, Num 20]),
    Assign (Name ''mback3d_i'') (Call (Name ''filtfilt'') [BinOp (Call (Attr (Name ''np'')
        ''ones'') [Name ''nsmoothy'']) Div (Call (Name ''float'') [Name ''nsmoothy'']), Num 1,
        Name ''m3d_i'', Kw ''axis'' (Num 0)]),
    Assign (Name ''mback3d_i'') (Call (Name ''filtfilt'') [BinOp (Call (Attr (Name ''np'')
        ''ones'') [Name ''nsmoothx'']) Div (Call (Name ''float'') [Name ''nsmoothx'']), Num 1,
        Name ''mback3d_i'', Kw ''axis'' (Num 1)]),
    Assign (Name ''mback3d_i'') (Call (Name ''filtfilt'') [BinOp (Call (Attr (Name ''np'')
        ''ones'') [Name ''nsmoothz'']) Div (Call (Name ''float'') [Name ''nsmoothz'']), Num 1,
        Name ''mback3d_i'', Kw ''axis'' (Num 2)]),
    Assign (Name ''dt'') (FloatLit ''0.004''),
    Assign (Name ''t0'') (BinOp (Call (Attr (Name ''np'') ''arange'') [Name ''nz'']) Mult (Name
        ''dt'')),
    Assign (Name ''ntwav'') (Num 41),
    Assign (Name ''wav'') (Subscript (Call (Name ''ricker'') [Subscript (Name ''t0'') (Slice
        Omitted (BinOp (BinOp (Name ''ntwav'') FloorDiv (Num 2)) Add (Num 1)) Omitted), Num 15])
        (Num 0)),
    Assign (Name ''m3d'') (Call (Attr (Name ''np'') ''concatenate'') [Call (Attr (Attr (Name
        ''MPI'') ''COMM_WORLD'') ''allgather'') [Name ''m3d_i'']]),
    Assign (Name ''mback3d'') (Call (Attr (Name ''np'') ''concatenate'') [Call (Attr (Attr (Name
        ''MPI'') ''COMM_WORLD'') ''allgather'') [Name ''mback3d_i'']])
  ]"

text \<open>Distributed arrays of the model and of the smooth model, lines 71 to 80.\<close>

definition nccl_arrays :: "stmt list" where
  "nccl_arrays =
  [
    Assign (Name ''m3d_dist'') (Call (Attr (Name ''pylops_mpi'') ''DistributedArray'') [Kw
        ''global_shape'' (BinOp (BinOp (Name ''ny'') Mult (Name ''nx'')) Mult (Name ''nz'')), Kw
        ''base_comm_nccl'' (Name ''nccl_comm''), Kw ''engine'' (Str ''cupy'')]),
    Assign (Subscript (Name ''m3d_dist'') (Slice Omitted Omitted Omitted)) (Call (Attr (Name
        ''cp'') ''asarray'') [Call (Attr (Name ''m3d_i'') ''flatten'') []]),
    Assign (Name ''mback3d_dist'') (Call (Attr (Name ''pylops_mpi'') ''DistributedArray'') [Kw
        ''global_shape'' (BinOp (BinOp (Name ''ny'') Mult (Name ''nx'')) Mult (Name ''nz'')), Kw
        ''base_comm_nccl'' (Name ''nccl_comm''), Kw ''engine'' (Str ''cupy'')]),
    Assign (Subscript (Name ''mback3d_dist'') (Slice Omitted Omitted Omitted)) (Call (Attr (Name
        ''cp'') ''asarray'') [Call (Attr (Name ''mback3d_i'') ''flatten'') []])
  ]"

text \<open>The modelling operator, lines 88 to 91.\<close>

definition nccl_operator :: "stmt list" where
  "nccl_operator =
  [
    Assign (Name ''PPop'') (Call (Name ''PoststackLinearModelling'') [Kw ''wav'' (Call (Attr
        (Name ''cp'') ''asarray'') [Name ''wav'']), Kw ''nt0'' (Name ''nz''), Kw ''spatdims''
        (Tuple [Name ''ny_i'', Name ''nx''])]),
    Assign (Name ''Top'') (Call (Name ''Transpose'') [Tuple [Name ''ny_i'', Name ''nx'', Name
        ''nz''], Tuple [Num 2, Num 0, Num 1]]),
    Assign (Name ''BDiag'') (Call (Attr (Attr (Name ''pylops_mpi'') ''basicoperators'')
        ''MPIBlockDiag'') [Kw ''ops'' (ListE [BinOp (BinOp (Attr (Name ''Top'') ''H'') MatMul
        (Name ''PPop'')) MatMul (Name ''Top'')])])
  ]"

text \<open>Modelled data, lines 98 to 102.\<close>

definition nccl_data :: "stmt list" where
  "nccl_data =
  [
    Assign (Name ''d_dist'') (BinOp (Name ''BDiag'') MatMul (Name ''m3d_dist'')),
    Assign (Name ''d_local'') (Call (Attr (Attr (Name ''d_dist'') ''local_array'') ''reshape'')
        [Tuple [Name ''ny_i'', Name ''nx'', Name ''nz'']]),
    Assign (Name ''d'') (Call (Attr (Call (Attr (Name ''d_dist'') ''asarray'') []) ''reshape'')
        [Tuple [Name ''ny'', Name ''nx'', Name ''nz'']]),
    Assign (Name ''d_0_dist'') (BinOp (Name ''BDiag'') MatMul (Name ''mback3d_dist'')),
    Assign (Name ''d_0'') (Call (Attr (Call (Attr (Name ''d_dist'') ''asarray'') [])
        ''reshape'') [Tuple [Name ''ny'', Name ''nx'', Name ''nz'']])
  ]"

text \<open>Inversion with CGLS, lines 111 to 114.\<close>

definition nccl_cgls :: "stmt list" where
  "nccl_cgls =
  [
    Assign (Name ''minv3d_iter_dist'') (Subscript (Call (Attr (Attr (Attr (Name ''pylops_mpi'')
        ''optimization'') ''basic'') ''cgls'') [Name ''BDiag'', Name ''d_dist'', Kw ''x0'' (Name
        ''mback3d_dist''), Kw ''niter'' (Num 100), Kw ''show'' (BoolLit True)]) (Num 0)),
    Assign (Name ''minv3d_iter'') (Call (Attr (Call (Attr (Name ''minv3d_iter_dist'')
        ''asarray'') []) ''reshape'') [Tuple [Name ''ny'', Name ''nx'', Name ''nz'']])
  ]"

text \<open>Regularized inversion with normal equations, lines 119 to 129.\<close>

definition nccl_normal :: "stmt list" where
  "nccl_normal =
  [
    Assign (Name ''epsR'') (FloatLit ''1e2''),
    Assign (Name ''LapOp'') (Call (Attr (Name ''pylops_mpi'') ''MPILaplacian'') [Kw ''dims''
        (Tuple [Name ''ny'', Name ''nx'', Name ''nz'']), Kw ''axes'' (Tuple [Num 0, Num 1, Num
        2]), Kw ''weights'' (Tuple [Num 1, Num 1, Num 1]), Kw ''sampling'' (Tuple [Num 1, Num 1,
        Num 1]), Kw ''dtype'' (Attr (Name ''BDiag'') ''dtype'')]),
    Assign (Name ''NormEqOp'') (BinOp (BinOp (Attr (Name ''BDiag'') ''H'') MatMul (Name
        ''BDiag'')) Add (BinOp (BinOp (Name ''epsR'') Mult (Attr (Name ''LapOp'') ''H'')) MatMul
        (Name ''LapOp''))),
    Assign (Name ''dnorm_dist'') (BinOp (Attr (Name ''BDiag'') ''H'') MatMul (Name ''d_dist'')),
    Assign (Name ''minv3d_ne_dist'') (Subscript (Call (Attr (Attr (Attr (Name ''pylops_mpi'')
        ''optimization'') ''basic'') ''cg'') [Name ''NormEqOp'', Name ''dnorm_dist'', Kw ''x0''
        (Name ''mback3d_dist''), Kw ''niter'' (Num 100), Kw ''show'' (BoolLit True)]) (Num 0)),
    Assign (Name ''minv3d_ne'') (Call (Attr (Call (Attr (Name ''minv3d_ne_dist'') ''asarray'')
        []) ''reshape'') [Tuple [Name ''ny'', Name ''nx'', Name ''nz'']])
  ]"

text \<open>Regularized inversion with regularized equations, lines 134 to 144.\<close>

definition nccl_stacked :: "stmt list" where
  "nccl_stacked =
  [
    Assign (Name ''StackOp'') (Call (Attr (Name ''pylops_mpi'') ''MPIStackedVStack'') [ListE
        [Name ''BDiag'', BinOp (Call (Attr (Name ''np'') ''sqrt'') [Name ''epsR'']) Mult (Name
        ''LapOp'')]]),
    Assign (Name ''d0_dist'') (Call (Attr (Name ''pylops_mpi'') ''DistributedArray'') [Kw
        ''global_shape'' (BinOp (BinOp (Name ''ny'') Mult (Name ''nx'')) Mult (Name ''nz'')), Kw
        ''base_comm_nccl'' (Name ''nccl_comm''), Kw ''engine'' (Str ''cupy'')]),
    Assign (Subscript (Name ''d0_dist'') (Slice Omitted Omitted Omitted)) (FloatLit ''0.''),
    Assign (Name ''dstack_dist'') (Call (Attr (Name ''pylops_mpi'') ''StackedDistributedArray'')
        [ListE [Name ''d_dist'', Name ''d0_dist'']]),
    Assign (Name ''dnorm_dist'') (BinOp (Attr (Name ''BDiag'') ''H'') MatMul (Name ''d_dist'')),
    Assign (Name ''minv3d_reg_dist'') (Subscript (Call (Attr (Attr (Attr (Name ''pylops_mpi'')
        ''optimization'') ''basic'') ''cgls'') [Name ''StackOp'', Name ''dstack_dist'', Kw
        ''x0'' (Name ''mback3d_dist''), Kw ''niter'' (Num 100), Kw ''show'' (BoolLit True)])
        (Num 0)),
    Assign (Name ''minv3d_reg'') (Call (Attr (Call (Attr (Name ''minv3d_reg_dist'') ''asarray'')
        []) ''reshape'') [Tuple [Name ''ny'', Name ''nx'', Name ''nz'']])
  ]"

text \<open>Inside the conditional: the comparison with a single-process modelling, lines 153 to 159.\<close>

definition nccl_check :: "stmt list" where
  "nccl_check =
  [
    Assign (Name ''PPop0'') (Call (Name ''PoststackLinearModelling'') [Name ''wav'', Kw ''nt0''
        (Name ''nz''), Kw ''spatdims'' (Tuple [Name ''ny'', Name ''nx''])]),
    Assign (Name ''d0'') (Call (Attr (BinOp (Name ''PPop0'') MatMul (Call (Attr (Name ''m3d'')
        ''transpose'') [Num 2, Num 0, Num 1])) ''transpose'') [Num 1, Num 2, Num 0]),
    Assign (Name ''d0_0'') (Call (Attr (BinOp (Name ''PPop0'') MatMul (Call (Attr (Name ''m3d'')
        ''transpose'') [Num 2, Num 0, Num 1])) ''transpose'') [Num 1, Num 2, Num 0]),
    ExprStmt (Call (Name ''print'') [Str ''Distr == Local'', Call (Attr (Name ''np'')
        ''allclose'') [Name ''d'', Name ''d0'']]),
    ExprStmt (Call (Name ''print'') [Str ''Smooth Distr == Local'', Call (Attr (Name ''np'')
        ''allclose'') [Name ''d_0'', Name ''d0_0'']])
  ]"

text \<open>Inside the conditional: the figure, lines 162 to 221.\<close>

definition nccl_plots :: "stmt list" where
  "nccl_plots =
  [
    Assign (Tuple [Name ''fig'', Name ''axs'']) (Call (Attr (Name ''plt'') ''subplots'') [Kw
        ''nrows'' (Num 6), Kw ''ncols'' (Num 3), Kw ''figsize'' (Tuple [Num 9, Num 14]), Kw
        ''constrained_layout'' (BoolLit True)]),
    ExprStmt (Call (Attr (Subscript (Subscript (Name ''axs'') (Num 0)) (Num 0)) ''imshow'')
        [Attr (Subscript (Name ''m3d'') (Tuple [Num 5, Slice Omitted Omitted Omitted, Slice
        Omitted Omitted Omitted])) ''T'', Kw ''cmap'' (Str ''gist_rainbow''), Kw ''vmin'' (Call
        (Attr (Name ''m'') ''min'') []), Kw ''vmax'' (Call (Attr (Name ''m'') ''max'') [])]),
    ExprStmt (Call (Attr (Subscript (Subscript (Name ''axs'') (Num 0)) (Num 0)) ''set_title'')
        [Str ''Model x-z'']),
    ExprStmt (Call (Attr (Subscript (Subscript (Name ''axs'') (Num 0)) (Num 0)) ''axis'') [Str
        ''tight'']),
    ExprStmt (Call (Attr (Subscript (Subscript (Name ''axs'') (Num 0)) (Num 1)) ''imshow'')
        [Attr (Subscript (Name ''m3d'') (Tuple [Slice Omitted Omitted Omitted, Num 200, Slice
        Omitted Omitted Omitted])) ''T'', Kw ''cmap'' (Str ''gist_rainbow''), Kw ''vmin'' (Call
        (Attr (Name ''m'') ''min'') []), Kw ''vmax'' (Call (Attr (Name ''m'') ''max'') [])]),
    ExprStmt (Call (Attr (Subscript (Subscript (Name ''axs'') (Num 0)) (Num 1)) ''set_title'')
        [Str ''Model y-z'']),
    ExprStmt (Call (Attr (Subscript (Subscript (Name ''axs'') (Num 0)) (Num 1)) ''axis'') [Str
        ''tight'']),
    ExprStmt (Call (Attr (Subscript (Subscript (Name ''axs'') (Num 0)) (Num 2)) ''imshow'')
        [Attr (Subscript (Name ''m3d'') (Tuple [Slice Omitted Omitted Omitted, Slice Omitted
        Omitted Omitted, Num 220])) ''T'', Kw ''cmap'' (Str ''gist_rainbow''), Kw ''vmin'' (Call
        (Attr (Name ''m'') ''min'') []), Kw ''vmax'' (Call (Attr (Name ''m'') ''max'') [])]),
    ExprStmt (Call (Attr (Subscript (Subscript (Name ''axs'') (Num 0)) (Num 2)) ''set_title'')
        [Str ''Model y-z'']),
    ExprStmt (Call (Attr (Subscript (Subscript (Name ''axs'') (Num 0)) (Num 2)) ''axis'') [Str
        ''tight'']),
    ExprStmt (Call (Attr (Subscript (Subscript (Name ''axs'') (Num 1)) (Num 0)) ''imshow'')
        [Attr (Subscript (Name ''mback3d'') (Tuple [Num 5, Slice Omitted Omitted Omitted, Slice
        Omitted Omitted Omitted])) ''T'', Kw ''cmap'' (Str ''gist_rainbow''), Kw ''vmin'' (Call
        (Attr (Name ''m'') ''min'') []), Kw ''vmax'' (Call (Attr (Name ''m'') ''max'') [])]),
    ExprStmt (Call (Attr (Subscript (Subscript (Name ''axs'') (Num 1)) (Num 0)) ''set_title'')
        [Str ''Smooth Model x-z'']),
    ExprStmt (Call (Attr (Subscript (Subscript (Name ''axs'') (Num 1)) (Num 0)) ''axis'') [Str
        ''tight'']),
    ExprStmt (Call (Attr (Subscript (Subscript (Name ''axs'') (Num 1)) (Num 1)) ''imshow'')
        [Attr (Subscript (Name ''mback3d'') (Tuple [Slice Omitted Omitted Omitted, Num 200,
        Slice Omitted Omitted Omitted])) ''T'', Kw ''cmap'' (Str ''gist_rainbow''), Kw ''vmin''
        (Call (Attr (Name ''m'') ''min'') []), Kw ''vmax'' (Call (Attr (Name ''m'') ''max'')
        [])]),
    ExprStmt (Call (Attr (Subscript (Subscript (Name ''axs'') (Num 1)) (Num 1)) ''set_title'')
        [Str ''Smooth Model y-z'']),
    ExprStmt (Call (Attr (Subscript (Subscript (Name ''axs'') (Num 1)) (Num 1)) ''axis'') [Str
        ''tight'']),
    ExprStmt (Call (Attr (Subscript (Subscript (Name ''axs'') (Num 1)) (Num 2)) ''imshow'')
        [Attr (Subscript (Name ''mback3d'') (Tuple [Slice Omitted Omitted Omitted, Slice Omitted
        Omitted Omitted, Num 220])) ''T'', Kw ''cmap'' (Str ''gist_rainbow''), Kw ''vmin'' (Call
        (Attr (Name ''m'') ''min'') []), Kw ''vmax'' (Call (Attr (Name ''m'') ''max'') [])]),
    ExprStmt (Call (Attr (Subscript (Subscript (Name ''axs'') (Num 1)) (Num 2)) ''set_title'')
        [Str ''Smooth Model y-z'']),
    ExprStmt (Call (Attr (Subscript (Subscript (Name ''axs'') (Num 1)) (Num 2)) ''axis'') [Str
        ''tight'']),
    ExprStmt (Call (Attr (Subscript (Subscript (Name ''axs'') (Num 2)) (Num 0)) ''imshow'')
        [Call (Attr (Attr (Subscript (Name ''d'') (Tuple [Num 5, Slice Omitted Omitted Omitted,
        Slice Omitted Omitted Omitted])) ''T'') ''get'') [], Kw ''cmap'' (Str ''gray''), Kw
        ''vmin'' (Neg (Num 1)), Kw ''vmax'' (Num 1)]),
    ExprStmt (Call (Attr (Subscript (Subscript (Name ''axs'') (Num 2)) (Num 0)) ''set_title'')
        [Str ''Data x-z'']),
    ExprStmt (Call (Attr (Subscript (Subscript (Name ''axs'') (Num 2)) (Num 0)) ''axis'') [Str
        ''tight'']),
    ExprStmt (Call (Attr (Subscript (Subscript (Name ''axs'') (Num 2)) (Num 1)) ''imshow'')
        [Call (Attr (Attr (Subscript (Name ''d'') (Tuple [Slice Omitted Omitted Omitted, Num
        200, Slice Omitted Omitted Omitted])) ''T'') ''get'') [], Kw ''cmap'' (Str ''gray''), Kw
        ''vmin'' (Neg (Num 1)), Kw ''vmax'' (Num 1)]),
    ExprStmt (Call (Attr (Subscript (Subscript (Name ''axs'') (Num 2)) (Num 1)) ''set_title'')
        [Str ''Data y-z'']),
    ExprStmt (Call (Attr (Subscript (Subscript (Name ''axs'') (Num 2)) (Num 1)) ''axis'') [Str
        ''tight'']),
    ExprStmt (Call (Attr (Subscript (Subscript (Name ''axs'') (Num 2)) (Num 2)) ''imshow'')
        [Call (Attr (Attr (Subscript (Name ''d'') (Tuple [Slice Omitted Omitted Omitted, Slice
        Omitted Omitted Omitted, Num 220])) ''T'') ''get'') [], Kw ''cmap'' (Str ''gray''), Kw
        ''vmin'' (Neg (Num 1)), Kw ''vmax'' (Num 1)]),
    ExprStmt (Call (Attr (Subscript (Subscript (Name ''axs'') (Num 2)) (Num 2)) ''set_title'')
        [Str ''Data x-y'']),
    ExprStmt (Call (Attr (Subscript (Subscript (Name ''axs'') (Num 2)) (Num 2)) ''axis'') [Str
        ''tight'']),
    ExprStmt (Call (Attr (Subscript (Subscript (Name ''axs'') (Num 3)) (Num 0)) ''imshow'')
        [Call (Attr (Attr (Subscript (Name ''minv3d_iter'') (Tuple [Num 5, Slice Omitted Omitted
        Omitted, Slice Omitted Omitted Omitted])) ''T'') ''get'') [], Kw ''cmap'' (Str
        ''gist_rainbow''), Kw ''vmin'' (Call (Attr (Name ''m'') ''min'') []), Kw ''vmax'' (Call
        (Attr (Name ''m'') ''max'') [])]),
    ExprStmt (Call (Attr (Subscript (Subscript (Name ''axs'') (Num 3)) (Num 0)) ''set_title'')
        [Str ''Inverted Model iter x-z'']),
    ExprStmt (Call (Attr (Subscript (Subscript (Name ''axs'') (Num 3)) (Num 0)) ''axis'') [Str
        ''tight'']),
    ExprStmt (Call (Attr (Subscript (Subscript (Name ''axs'') (Num 3)) (Num 1)) ''imshow'')
        [Call (Attr (Attr (Subscript (Name ''minv3d_iter'') (Tuple [Slice Omitted Omitted
        Omitted, Num 200, Slice Omitted Omitted Omitted])) ''T'') ''get'') [], Kw ''cmap'' (Str
        ''gist_rainbow''), Kw ''vmin'' (Call (Attr (Name ''m'') ''min'') []), Kw ''vmax'' (Call
        (Attr (Name ''m'') ''max'') [])]),
    ExprStmt (Call (Attr (Subscript (Subscript (Name ''axs'') (Num 3)) (Num 1)) ''set_title'')
        [Str ''Inverted Model iter y-z'']),
    ExprStmt (Call (Attr (Subscript (Subscript (Name ''axs'') (Num 3)) (Num 1)) ''axis'') [Str
        ''tight'']),
    ExprStmt (Call (Attr (Subscript (Subscript (Name ''axs'') (Num 3)) (Num 2)) ''imshow'')
        [Call (Attr (Attr (Subscript (Name ''minv3d_iter'') (Tuple [Slice Omitted Omitted
        Omitted, Slice Omitted Omitted Omitted, Num 220])) ''T'') ''get'') [], Kw ''cmap'' (Str
        ''gist_rainbow''), Kw ''vmin'' (Call (Attr (Name ''m'') ''min'') []), Kw ''vmax'' (Call
        (Attr (Name ''m'') ''max'') [])]),
    ExprStmt (Call (Attr (Subscript (Subscript (Name ''axs'') (Num 3)) (Num 2)) ''set_title'')
        [Str ''Inverted Model iter x-y'']),
    ExprStmt (Call (Attr (Subscript (Subscript (Name ''axs'') (Num 3)) (Num 2)) ''axis'') [Str
        ''tight'']),
    ExprStmt (Call (Attr (Subscript (Subscript (Name ''axs'') (Num 4)) (Num 0)) ''imshow'')
        [Call (Attr (Attr (Subscript (Name ''minv3d_ne'') (Tuple [Num 5, Slice Omitted Omitted
        Omitted, Slice Omitted Omitted Omitted])) ''T'') ''get'') [], Kw ''cmap'' (Str
        ''gist_rainbow''), Kw ''vmin'' (Call (Attr (Name ''m'') ''min'') []), Kw ''vmax'' (Call
        (Attr (Name ''m'') ''max'') [])]),
    ExprStmt (Call (Attr (Subscript (Subscript (Name ''axs'') (Num 4)) (Num 0)) ''set_title'')
        [Str ''Normal Equations Inverted Model iter x-z'']),
    ExprStmt (Call (Attr (Subscript (Subscript (Name ''axs'') (Num 4)) (Num 0)) ''axis'') [Str
        ''tight'']),
    ExprStmt (Call (Attr (Subscript (Subscript (Name ''axs'') (Num 4)) (Num 1)) ''imshow'')
        [Call (Attr (Attr (Subscript (Name ''minv3d_ne'') (Tuple [Slice Omitted Omitted Omitted,
        Num 200, Slice Omitted Omitted Omitted])) ''T'') ''get'') [], Kw ''cmap'' (Str
        ''gist_rainbow''), Kw ''vmin'' (Call (Attr (Name ''m'') ''min'') []), Kw ''vmax'' (Call
        (Attr (Name ''m'') ''max'') [])]),
    ExprStmt (Call (Attr (Subscript (Subscript (Name ''axs'') (Num 4)) (Num 1)) ''set_title'')
        [Str ''Normal Equations Inverted Model iter y-z'']),
    ExprStmt (Call (Attr (Subscript (Subscript (Name ''axs'') (Num 4)) (Num 1)) ''axis'') [Str
        ''tight'']),
    ExprStmt (Call (Attr (Subscript (Subscript (Name ''axs'') (Num 4)) (Num 2)) ''imshow'')
        [Call (Attr (Attr (Subscript (Name ''minv3d_ne'') (Tuple [Slice Omitted Omitted Omitted,
        Slice Omitted Omitted Omitted, Num 220])) ''T'') ''get'') [], Kw ''cmap'' (Str
        ''gist_rainbow''), Kw ''vmin'' (Call (Attr (Name ''m'') ''min'') []), Kw ''vmax'' (Call
        (Attr (Name ''m'') ''max'') [])]),
    ExprStmt (Call (Attr (Subscript (Subscript (Name ''axs'') (Num 4)) (Num 2)) ''set_title'')
        [Str ''Normal Equations Inverted Model iter x-y'']),
    ExprStmt (Call (Attr (Subscript (Subscript (Name ''axs'') (Num 4)) (Num 2)) ''axis'') [Str
        ''tight'']),
    ExprStmt (Call (Attr (Subscript (Subscript (Name ''axs'') (Num 5)) (Num 0)) ''imshow'')
        [Call (Attr (Attr (Subscript (Name ''minv3d_reg'') (Tuple [Num 5, Slice Omitted Omitted
        Omitted, Slice Omitted Omitted Omitted])) ''T'') ''get'') [], Kw ''cmap'' (Str
        ''gist_rainbow''), Kw ''vmin'' (Call (Attr (Name ''m'') ''min'') []), Kw ''vmax'' (Call
        (Attr (Name ''m'') ''max'') [])]),
    ExprStmt (Call (Attr (Subscript (Subscript (Name ''axs'') (Num 5)) (Num 0)) ''set_title'')
        [Str ''Regularized Inverted Model iter x-z'']),
    ExprStmt (Call (Attr (Subscript (Subscript (Name ''axs'') (Num 5)) (Num 0)) ''axis'') [Str
        ''tight'']),
    ExprStmt (Call (Attr (Subscript (Subscript (Name ''axs'') (Num 5)) (Num 1)) ''imshow'')
        [Call (Attr (Attr (Subscript (Name ''minv3d_reg'') (Tuple [Slice Omitted Omitted
        Omitted, Num 200, Slice Omitted Omitted Omitted])) ''T'') ''get'') [], Kw ''cmap'' (Str
        ''gist_rainbow''), Kw ''vmin'' (Call (Attr (Name ''m'') ''min'') []), Kw ''vmax'' (Call
        (Attr (Name ''m'') ''max'') [])]),
    ExprStmt (Call (Attr (Subscript (Subscript (Name ''axs'') (Num 5)) (Num 1)) ''set_title'')
        [Str ''Regularized Inverted Model iter y-z'']),
    ExprStmt (Call (Attr (Subscript (Subscript (Name ''axs'') (Num 5)) (Num 1)) ''axis'') [Str
        ''tight'']),
    ExprStmt (Call (Attr (Subscript (Subscript (Name ''axs'') (Num 5)) (Num 2)) ''imshow'')
        [Call (Attr (Attr (Subscript (Name ''minv3d_reg'') (Tuple [Slice Omitted Omitted
        Omitted, Slice Omitted Omitted Omitted, Num 220])) ''T'') ''get'') [], Kw ''cmap'' (Str
        ''gist_rainbow''), Kw ''vmin'' (Call (Attr (Name ''m'') ''min'') []), Kw ''vmax'' (Call
        (Attr (Name ''m'') ''max'') [])]),
    ExprStmt (Call (Attr (Subscript (Subscript (Name ''axs'') (Num 5)) (Num 2)) ''set_title'')
        [Str ''Regularized Inverted Model iter x-y'']),
    ExprStmt (Call (Attr (Subscript (Subscript (Name ''axs'') (Num 5)) (Num 2)) ''axis'') [Str
        ''tight''])
  ]"

text \<open>The conditional of line 150, which has no \<open>else\<close> branch.\<close>

definition nccl_report :: "stmt list" where
  "nccl_report = [If (BinOp (Name ''rank'') Eq (Num 0)) (nccl_check @ nccl_plots) []]"

text \<open>The whole script. Its docstring, a string expression with no effect, is left out.\<close>

definition poststack_nccl :: "stmt list" where
  "poststack_nccl =
     nccl_imports @ nccl_init @ nccl_model @ nccl_arrays @ nccl_operator
     @ nccl_data @ nccl_cgls @ nccl_normal @ nccl_stacked @ nccl_report"

subsection \<open>Values, library operations and the world a run sees\<close>

text \<open>
  The libraries are external to the repository and are left uninterpreted. A value is a
  Python literal, a library global named by its dotted path, the contents of a loaded
  file, or an object \<open>VObj n\<close>: the result of the \<open>n\<close>-th library operation of the run.
  Integers, which the scripts compute with and branch on, are concrete. No operation
  returns a \<open>VOp\<close>: \<open>VOp kind arguments\<close> describes how an object was made, and is what an
  object is replaced by when its history is written out.
\<close>

datatype opkind =
    OImport
  | OCall
  | OCollective int
  | OAttr string
  | OSubscript
  | OSetItem
  | OUnpack nat
  | OBin binop
  | ONeg

datatype val =
    VInt int
  | VFloat string
  | VStr string
  | VBool bool
  | VOmitted
  | VGlobal string
  | VLoaded string
  | VKw string val
  | VTuple "val list"
  | VList "val list"
  | VSlice val val val
  | VObj nat
  | VItem nat val
  | VOp opkind "val list"

text \<open>An event of the trace: one library operation with its arguments.\<close>

datatype event = Op opkind "val list"

datatype error =
    NameError string
  | ZeroDivisionError
  | FileNotFoundError string
  | TypeError
  | ValueError
  | IndexError
  | LibraryError nat

type_synonym env = "(string \<times> val) list"

text \<open>
  What a process can observe from outside the script: its MPI rank, the size of
  \<open>COMM_WORLD\<close>, the number of CUDA devices, the file system, the command line and the
  environment variables. \<open>raises n ev\<close> says whether the library raises when the run
  performs \<open>ev\<close> as its \<open>n\<close>-th library operation.
\<close>

record world =
  rank :: int
  nranks :: int
  device_count :: int
  files :: "string \<Rightarrow> string option"
  argv :: "string list"
  environ :: "(string \<times> string) list"
  raises :: "nat \<Rightarrow> event \<Rightarrow> error option"

fun as_int :: "val \<Rightarrow> int option" where
  "as_int (VInt n) = Some n"
| "as_int v = None"

fun as_str :: "val \<Rightarrow> string option" where
  "as_str (VStr s) = Some s"
| "as_str v = None"

fun as_global :: "val \<Rightarrow> string option" where
  "as_global (VGlobal p) = Some p"
| "as_global v = None"

text \<open>
  The result of operation number \<open>n\<close> when it does not raise. Three calls read the world
  and \<open>np.load\<close> reads the file system; every other operation returns a new object.
\<close>

definition call_outcome :: "world \<Rightarrow> val list \<Rightarrow> nat \<Rightarrow> error + val" where
  "call_outcome w vs n =
     (case vs of
        [f] \<Rightarrow>
          if f = VGlobal ''mpi4py.MPI.COMM_WORLD.Get_rank'' then Inr (VInt (rank w))
          else if f = VGlobal ''mpi4py.MPI.COMM_WORLD.Get_size'' then Inr (VInt (nranks w))
          else if f = VGlobal ''cupy.cuda.runtime.getDeviceCount'' then Inr (VInt (device_count w))
          else Inr (VObj n)
      | [f, a] \<Rightarrow>
          if f = VGlobal ''numpy.load'' then
            (case as_str a of
               None \<Rightarrow> Inr (VObj n)
             | Some path \<Rightarrow>
                 (case files w path of
                    None \<Rightarrow> Inl (FileNotFoundError path)
                  | Some c \<Rightarrow> Inr (VLoaded c)))
          else Inr (VObj n)
      | _ \<Rightarrow> Inr (VObj n))"

fun outcome :: "world \<Rightarrow> opkind \<Rightarrow> val list \<Rightarrow> nat \<Rightarrow> error + val" where
  "outcome w OCall vs n = call_outcome w vs n"
| "outcome w k vs n = Inr (VObj n)"

text \<open>
  A computation starts at an operation count and returns its result, the events it
  performed in order, and the new count. \<open>after evs m\<close> puts earlier events in front.
\<close>

definition after :: "event list \<Rightarrow> 'a \<times> event list \<times> nat \<Rightarrow> 'a \<times> event list \<times> nat" where
  "after evs m = (case m of (r, evs1, n) \<Rightarrow> (r, evs @ evs1, n))"

text \<open>One library operation: it is recorded, and either raises or returns.\<close>

definition lib_op :: "world \<Rightarrow> opkind \<Rightarrow> val list \<Rightarrow> nat \<Rightarrow> (error + val) \<times> event list \<times> nat" where
  "lib_op w k vs n =
     (case raises w n (Op k vs) of
        Some e \<Rightarrow> (Inl e, [Op k vs], n + 1)
      | None \<Rightarrow> (outcome w k vs n, [Op k vs], n + 1))"

text \<open>
  A call of a \<open>COMM_WORLD\<close> collective is recorded together with the communicator size, on
  which its result depends.
\<close>

definition is_collective :: "string \<Rightarrow> bool" where
  "is_collective p \<longleftrightarrow>
     p = ''mpi4py.MPI.COMM_WORLD.allreduce'' \<or> p = ''mpi4py.MPI.COMM_WORLD.allgather''"

definition apply_call :: "world \<Rightarrow> val \<Rightarrow> val list \<Rightarrow> nat \<Rightarrow> (error + val) \<times> event list \<times> nat" where
  "apply_call w f vs n =
     (case as_global f of
        Some p \<Rightarrow>
          if is_collective p then lib_op w (OCollective (nranks w)) (f # vs) n
          else lib_op w OCall (f # vs) n
      | None \<Rightarrow> lib_op w OCall (f # vs) n)"

text \<open>
  Attribute access. A dotted path below an imported module names a library global and
  performs no operation; \<open>sys.argv\<close> and \<open>os.environ\<close> read the world; an attribute of any
  other value is a library operation (a property or a bound method).
\<close>

definition get_attr :: "world \<Rightarrow> val \<Rightarrow> string \<Rightarrow> nat \<Rightarrow> (error + val) \<times> event list \<times> nat" where
  "get_attr w v a n =
     (case as_global v of
        Some p \<Rightarrow>
          if p = ''sys'' \<and> a = ''argv'' then (Inr (VList (map VStr (argv w))), [], n)
          else if p = ''os'' \<and> a = ''environ''
            then (Inr (VList (map (\<lambda>(k, x). VTuple [VStr k, VStr x]) (environ w))), [], n)
          else (Inr (VGlobal (p @ ''.'' @ a)), [], n)
      | None \<Rightarrow> lib_op w (OAttr a) [v] n)"

text \<open>
  Binary operators. On two integers they are Python's own arithmetic (\<open>//\<close> and \<open>%\<close>
  round towards minus infinity, as \<open>div\<close> and \<open>mod\<close> on \<open>int\<close> do, and raise on a zero
  divisor); on anything else they are operations of the library that owns the operand.
\<close>

fun int_binop :: "world \<Rightarrow> binop \<Rightarrow> int \<Rightarrow> int \<Rightarrow> nat \<Rightarrow> (error + val) \<times> event list \<times> nat" where
  "int_binop w Add a b n = (Inr (VInt (a + b)), [], n)"
| "int_binop w Mult a b n = (Inr (VInt (a * b)), [], n)"
| "int_binop w FloorDiv a b n =
     (if b = 0 then (Inl ZeroDivisionError, [], n) else (Inr (VInt (a div b)), [], n))"
| "int_binop w Mod a b n =
     (if b = 0 then (Inl ZeroDivisionError, [], n) else (Inr (VInt (a mod b)), [], n))"
| "int_binop w Eq a b n = (Inr (VBool (a = b)), [], n)"
| "int_binop w Div a b n =
     (if b = 0 then (Inl ZeroDivisionError, [], n) else lib_op w (OBin Div) [VInt a, VInt b] n)"
| "int_binop w MatMul a b n = (Inl TypeError, [], n)"

definition apply_binop :: "world \<Rightarrow> binop \<Rightarrow> val \<Rightarrow> val \<Rightarrow> nat \<Rightarrow> (error + val) \<times> event list \<times> nat" where
  "apply_binop w bop a b n =
     (case as_int a of
        None \<Rightarrow> lib_op w (OBin bop) [a, b] n
      | Some x \<Rightarrow>
          (case as_int b of
             None \<Rightarrow> lib_op w (OBin bop) [a, b] n
           | Some y \<Rightarrow> int_binop w bop x y n))"

definition apply_neg :: "world \<Rightarrow> val \<Rightarrow> nat \<Rightarrow> (error + val) \<times> event list \<times> nat" where
  "apply_neg w v n =
     (case as_int v of
        None \<Rightarrow> lib_op w ONeg [v] n
      | Some x \<Rightarrow> (Inr (VInt (- x)), [], n))"

subsection \<open>Evaluation of expressions\<close>

text \<open>The environment is searched from the newest binding.\<close>

fun lookup :: "env \<Rightarrow> string \<Rightarrow> val option" where
  "lookup [] x = None"
| "lookup ((k, v) # en) x = (if k = x then Some v else lookup en x)"

text \<open>
  Python's order: the callee before the arguments, arguments left to right, the left
  operand before the right one. The first error stops the evaluation.
\<close>

fun eval :: "world \<Rightarrow> env \<Rightarrow> expr \<Rightarrow> nat \<Rightarrow> (error + val) \<times> event list \<times> nat"
  and evals :: "world \<Rightarrow> env \<Rightarrow> expr list \<Rightarrow> nat \<Rightarrow> (error + val list) \<times> event list \<times> nat" where
  "eval w en (Name x) n =
     (case lookup en x of None \<Rightarrow> (Inl (NameError x), [], n) | Some v \<Rightarrow> (Inr v, [], n))"
| "eval w en (Num i) n = (Inr (VInt i), [], n)"
| "eval w en (FloatLit s) n = (Inr (VFloat s), [], n)"
| "eval w en (Str s) n = (Inr (VStr s), [], n)"
| "eval w en (BoolLit b) n = (Inr (VBool b), [], n)"
| "eval w en Omitted n = (Inr VOmitted, [], n)"
| "eval w en (Attr e a) n =
     (case eval w en e n of
        (Inl err, evs, n1) \<Rightarrow> (Inl err, evs, n1)
      | (Inr v, evs, n1) \<Rightarrow> after evs (get_attr w v a n1))"
| "eval w en (Call f args) n =
     (case eval w en f n of
        (Inl err, evs, n1) \<Rightarrow> (Inl err, evs, n1)
      | (Inr fv, evs, n1) \<Rightarrow>
          after evs
            (case evals w en args n1 of
               (Inl err, evs1, n2) \<Rightarrow> (Inl err, evs1, n2)
             | (Inr vs, evs1, n2) \<Rightarrow> after evs1 (apply_call w fv vs n2)))"
| "eval w en (Kw k e) n =
     (case eval w en e n of
        (Inl err, evs, n1) \<Rightarrow> (Inl err, evs, n1)
      | (Inr v, evs, n1) \<Rightarrow> (Inr (VKw k v), evs, n1))"
| "eval w en (Tuple es) n =
     (case evals w en es n of
        (Inl err, evs, n1) \<Rightarrow> (Inl err, evs, n1)
      | (Inr vs, evs, n1) \<Rightarrow> (Inr (VTuple vs), evs, n1))"
| "eval w en (ListE es) n =
     (case evals w en es n of
        (Inl err, evs, n1) \<Rightarrow> (Inl err, evs, n1)
      | (Inr vs, evs, n1) \<Rightarrow> (Inr (VList vs), evs, n1))"
| "eval w en (Subscript e i) n =
     (case eval w en e n of
        (Inl err, evs, n1) \<Rightarrow> (Inl err, evs, n1)
      | (Inr v, evs, n1) \<Rightarrow>
          after evs
            (case eval w en i n1 of
               (Inl err, evs1, n2) \<Rightarrow> (Inl err, evs1, n2)
             | (Inr iv, evs1, n2) \<Rightarrow> after evs1 (lib_op w OSubscript [v, iv] n2)))"
| "eval w en (Slice a b c) n =
     (case eval w en a n of
        (Inl err, evs, n1) \<Rightarrow> (Inl err, evs, n1)
      | (Inr av, evs, n1) \<Rightarrow>
          after evs
            (case eval w en b n1 of
               (Inl err, evs1, n2) \<Rightarrow> (Inl err, evs1, n2)
             | (Inr bv, evs1, n2) \<Rightarrow>
                 after evs1
                   (case eval w en c n2 of
                      (Inl err, evs2, n3) \<Rightarrow> (Inl err, evs2, n3)
                    | (Inr cv, evs2, n3) \<Rightarrow> (Inr (VSlice av bv cv), evs2, n3))))"
| "eval w en (BinOp a bop b) n =
     (case eval w en a n of
        (Inl err, evs, n1) \<Rightarrow> (Inl err, evs, n1)
      | (Inr av, evs, n1) \<Rightarrow>
          after evs
            (case eval w en b n1 of
               (Inl err, evs1, n2) \<Rightarrow> (Inl err, evs1, n2)
             | (Inr bv, evs1, n2) \<Rightarrow> after evs1 (apply_binop w bop av bv n2)))"
| "eval w en (Neg e) n =
     (case eval w en e n of
        (Inl err, evs, n1) \<Rightarrow> (Inl err, evs, n1)
      | (Inr v, evs, n1) \<Rightarrow> after evs (apply_neg w v n1))"
| "evals w en [] n = (Inr [], [], n)"
| "evals w en (e # es) n =
     (case eval w en e n of
        (Inl err, evs, n1) \<Rightarrow> (Inl err, evs, n1)
      | (Inr v, evs, n1) \<Rightarrow>
          after evs
            (case evals w en es n1 of
               (Inl err, evs1, n2) \<Rightarrow> (Inl err, evs1, n2)
             | (Inr vs, evs1, n2) \<Rightarrow> (Inr (v # vs), evs1, n2)))"

subsection \<open>Execution of statements\<close>

text \<open>
  Assignment evaluates the right-hand side first. A name is bound in the environment.
  A tuple of names takes the components of a tuple value, or unpacks a library object
  (one operation, which may raise) into its items. A subscript target is the library's
  item assignment; the assigned name is then bound to the updated object. No object of
  the scripts has a second name when it is assigned to in this way.
\<close>

definition after_stmt :: "event list \<Rightarrow> error option \<times> env \<times> event list \<times> nat
    \<Rightarrow> error option \<times> env \<times> event list \<times> nat" where
  "after_stmt evs m = (case m of (r, en, evs1, n) \<Rightarrow> (r, en, evs @ evs1, n))"

fun as_name :: "expr \<Rightarrow> string option" where
  "as_name (Name x) = Some x"
| "as_name e = None"

fun target_names :: "expr list \<Rightarrow> string list option" where
  "target_names [] = Some []"
| "target_names (e # es) =
     (case as_name e of
        None \<Rightarrow> None
      | Some x \<Rightarrow> map_option ((#) x) (target_names es))"

fun as_vtuple :: "val \<Rightarrow> val list option" where
  "as_vtuple (VTuple vs) = Some vs"
| "as_vtuple v = None"

fun items :: "val \<Rightarrow> nat \<Rightarrow> string list \<Rightarrow> env" where
  "items u i [] = []"
| "items u i (x # xs) = (x, VItem i u) # items u (Suc i) xs"

definition unpack :: "world \<Rightarrow> string list \<Rightarrow> val \<Rightarrow> env \<Rightarrow> nat \<Rightarrow> error option \<times> env \<times> event list \<times> nat" where
  "unpack w xs v en n =
     (case as_vtuple v of
        Some vs \<Rightarrow>
          if length vs = length xs then (None, rev (zip xs vs) @ en, [], n)
          else (Some ValueError, en, [], n)
      | None \<Rightarrow>
          (case lib_op w (OUnpack (length xs)) [v] n of
             (Inl err, evs, n1) \<Rightarrow> (Some err, en, evs, n1)
           | (Inr u, evs, n1) \<Rightarrow> (None, rev (items u 0 xs) @ en, evs, n1)))"

definition set_item :: "world \<Rightarrow> expr \<Rightarrow> expr \<Rightarrow> val \<Rightarrow> env \<Rightarrow> nat \<Rightarrow> error option \<times> env \<times> event list \<times> nat" where
  "set_item w e i v en n =
     (case as_name e of
        None \<Rightarrow> (Some TypeError, en, [], n)
      | Some x \<Rightarrow>
          (case eval w en (Name x) n of
             (Inl err, evs, n1) \<Rightarrow> (Some err, en, evs, n1)
           | (Inr ov, evs, n1) \<Rightarrow>
               after_stmt evs
                 (case eval w en i n1 of
                    (Inl err, evs1, n2) \<Rightarrow> (Some err, en, evs1, n2)
                  | (Inr iv, evs1, n2) \<Rightarrow>
                      after_stmt evs1
                        (case lib_op w OSetItem [ov, iv, v] n2 of
                           (Inl err, evs2, n3) \<Rightarrow> (Some err, en, evs2, n3)
                         | (Inr u, evs2, n3) \<Rightarrow> (None, (x, u) # en, evs2, n3)))))"

fun assign :: "world \<Rightarrow> expr \<Rightarrow> val \<Rightarrow> env \<Rightarrow> nat \<Rightarrow> error option \<times> env \<times> event list \<times> nat" where
  "assign w (Name x) v en n = (None, (x, v) # en, [], n)"
| "assign w (Tuple ts) v en n =
     (case target_names ts of
        None \<Rightarrow> (Some TypeError, en, [], n)
      | Some xs \<Rightarrow> unpack w xs v en n)"
| "assign w (Subscript e i) v en n = set_item w e i v en n"
| "assign w t v en n = (Some TypeError, en, [], n)"

text \<open>Truth of a condition: Python's for booleans and integers.\<close>

fun truth :: "val \<Rightarrow> bool option" where
  "truth (VBool b) = Some b"
| "truth (VInt i) = Some (i \<noteq> 0)"
| "truth v = None"

text \<open>
  A statement returns the error that escapes it, if any, with the environment reached, the
  events performed and the new operation count. \<open>Try body handler\<close> is
  \<open>try: body except: handler\<close>: an error raised in the body is caught and the handler runs
  from the state at the point of failure.
\<close>

fun exec :: "world \<Rightarrow> stmt \<Rightarrow> env \<Rightarrow> nat \<Rightarrow> error option \<times> env \<times> event list \<times> nat"
  and execs :: "world \<Rightarrow> stmt list \<Rightarrow> env \<Rightarrow> nat \<Rightarrow> error option \<times> env \<times> event list \<times> nat" where
  "exec w (Import m a) en n =
     (case lib_op w OImport [VGlobal m] n of
        (Inl err, evs, n1) \<Rightarrow> (Some err, en, evs, n1)
      | (Inr v, evs, n1) \<Rightarrow>
          (None, (case a of None \<Rightarrow> m | Some x \<Rightarrow> x, VGlobal m) # en, evs, n1))"
| "exec w (ImportFrom m x a) en n =
     (case lib_op w OImport [VGlobal (m @ ''.'' @ x)] n of
        (Inl err, evs, n1) \<Rightarrow> (Some err, en, evs, n1)
      | (Inr v, evs, n1) \<Rightarrow>
          (None, (case a of None \<Rightarrow> x | Some y \<Rightarrow> y, VGlobal (m @ ''.'' @ x)) # en, evs, n1))"
| "exec w (Assign t e) en n =
     (case eval w en e n of
        (Inl err, evs, n1) \<Rightarrow> (Some err, en, evs, n1)
      | (Inr v, evs, n1) \<Rightarrow> after_stmt evs (assign w t v en n1))"
| "exec w (ExprStmt e) en n =
     (case eval w en e n of
        (Inl err, evs, n1) \<Rightarrow> (Some err, en, evs, n1)
      | (Inr v, evs, n1) \<Rightarrow> (None, en, evs, n1))"
| "exec w (If c a b) en n =
     (case eval w en c n of
        (Inl err, evs, n1) \<Rightarrow> (Some err, en, evs, n1)
      | (Inr v, evs, n1) \<Rightarrow>
          (case truth v of
             None \<Rightarrow> (Some TypeError, en, evs, n1)
           | Some t \<Rightarrow> after_stmt evs (if t then execs w a en n1 else execs w b en n1)))"
| "exec w (Try a h) en n =
     (case execs w a en n of
        (Some err, en1, evs, n1) \<Rightarrow> after_stmt evs (execs w h en1 n1)
      | (None, en1, evs, n1) \<Rightarrow> (None, en1, evs, n1))"
| "execs w [] en n = (None, en, [], n)"
| "execs w (s # ss) en n =
     (case exec w s en n of
        (Some err, en1, evs, n1) \<Rightarrow> (Some err, en1, evs, n1)
      | (None, en1, evs, n1) \<Rightarrow> after_stmt evs (execs w ss en1 n1))"

text \<open>The built-in names the scripts use without importing them.\<close>

definition builtins :: env where
  "builtins = [(''print'', VGlobal ''builtins.print''), (''float'', VGlobal ''builtins.float'')]"

text \<open>
  A run of a script: the escaping error if any, the final bindings, and the trace of
  library operations in order.
\<close>

definition run :: "world \<Rightarrow> stmt list \<Rightarrow> error option \<times> env \<times> event list" where
  "run w prog = (case execs w prog builtins 0 of (r, en, evs, n) \<Rightarrow> (r, en, evs))"

section \<open>Calls in the program text\<close>

text \<open>All call expressions of an expression or statement, outermost first.\<close>

fun calls :: "expr \<Rightarrow> expr list" where
  "calls (Attr e a) = calls e"
| "calls (Call f args) = Call f args # calls f @ concat (map calls args)"
| "calls (Kw k e) = calls e"
| "calls (Tuple es) = concat (map calls es)"
| "calls (ListE es) = concat (map calls es)"
| "calls (Subscript e i) = calls e @ calls i"
| "calls (Slice a b c) = calls a @ calls b @ calls c"
| "calls (BinOp a bop b) = calls a @ calls b"
| "calls (Neg e) = calls e"
| "calls e = []"

fun stmt_calls :: "stmt \<Rightarrow> expr list" where
  "stmt_calls (Assign t e) = calls e @ calls t"
| "stmt_calls (ExprStmt e) = calls e"
| "stmt_calls (If c a b) = calls c @ concat (map stmt_calls a) @ concat (map stmt_calls b)"
| "stmt_calls (Try a h) = concat (map stmt_calls a) @ concat (map stmt_calls h)"
| "stmt_calls s = []"

text \<open>The value of keyword \<open>k\<close> among the arguments of a call.\<close>

fun kw_value :: "string \<Rightarrow> expr list \<Rightarrow> expr option" where
  "kw_value k [] = None"
| "kw_value k (Kw k' e # args) = (if k = k' then Some e else kw_value k args)"
| "kw_value k (a # args) = kw_value k args"

text \<open>The arguments of every call of the callee \<open>f\<close> in a program, in program order.\<close>

fun args_if :: "expr \<Rightarrow> expr \<Rightarrow> expr list list" where
  "args_if f (Call g args) = (if g = f then [args] else [])"
| "args_if f e = []"

definition calls_of :: "expr \<Rightarrow> stmt list \<Rightarrow> expr list list" where
  "calls_of f prog = concat (map (args_if f) (concat (map stmt_calls prog)))"

definition DistributedArray :: expr where
  "DistributedArray = Attr (Name ''pylops_mpi'') ''DistributedArray''"


section \<open>Comparing the two scripts\<close>

text \<open>
  \<open>strip_kw k\<close> removes every keyword argument named \<open>k\<close> from every call of an
  expression or statement, and changes nothing else.
\<close>

fun is_kw :: "string \<Rightarrow> expr \<Rightarrow> bool" where
  "is_kw k (Kw k' e) = (k = k')"
| "is_kw k e = False"

fun strip_kw :: "string \<Rightarrow> expr \<Rightarrow> expr" where
  "strip_kw k (Attr e a) = Attr (strip_kw k e) a"
| "strip_kw k (Call f args) = Call (strip_kw k f) (map (strip_kw k) (filter (\<lambda>a. \<not> is_kw k a) args))"
| "strip_kw k (Kw k' e) = Kw k' (strip_kw k e)"
| "strip_kw k (Tuple es) = Tuple (map (strip_kw k) es)"
| "strip_kw k (ListE es) = ListE (map (strip_kw k) es)"
| "strip_kw k (Subscript e i) = Subscript (strip_kw k e) (strip_kw k i)"
| "strip_kw k (Slice a b c) = Slice (strip_kw k a) (strip_kw k b) (strip_kw k c)"
| "strip_kw k (BinOp a bop b) = BinOp (strip_kw k a) bop (strip_kw k b)"
| "strip_kw k (Neg e) = Neg (strip_kw k e)"
| "strip_kw k e = e"

fun strip_kw_stmt :: "string \<Rightarrow> stmt \<Rightarrow> stmt" where
  "strip_kw_stmt k (Assign t e) = Assign (strip_kw k t) (strip_kw k e)"
| "strip_kw_stmt k (ExprStmt e) = ExprStmt (strip_kw k e)"
| "strip_kw_stmt k (If c a b) =
     If (strip_kw k c) (map (strip_kw_stmt k) a) (map (strip_kw_stmt k) b)"
| "strip_kw_stmt k (Try a h) = Try (map (strip_kw_stmt k) a) (map (strip_kw_stmt k) h)"
| "strip_kw_stmt k s = s"

text \<open>Whether an expression is a call that is given the keyword \<open>k\<close>.\<close>

fun has_kw :: "string \<Rightarrow> expr \<Rightarrow> bool" where
  "has_kw k (Call f args) = list_ex (is_kw k) args"
| "has_kw k e = False"

text \<open>Everything a script does after its imports and its set-up block.\<close>

definition cupy_body :: "stmt list" where
  "cupy_body =
     cupy_model @ cupy_arrays @ cupy_operator @ cupy_data @ cupy_cgls @ cupy_normal
     @ cupy_stacked @ cupy_report"

definition nccl_body :: "stmt list" where
  "nccl_body =
     nccl_model @ nccl_arrays @ nccl_operator @ nccl_data @ nccl_cgls @ nccl_normal
     @ nccl_stacked @ nccl_report"


section \<open>Structure of a program and the fate of errors\<close>

text \<open>Whether a statement contains an exception handler, and how many conditionals.\<close>

fun no_try :: "stmt \<Rightarrow> bool" where
  "no_try (If c a b) = (list_all no_try a \<and> list_all no_try b)"
| "no_try (Try a h) = False"
| "no_try s = True"

fun conditionals :: "stmt \<Rightarrow> nat" where
  "conditionals (If c a b) = 1 + sum_list (map conditionals a) + sum_list (map conditionals b)"
| "conditionals (Try a h) = sum_list (map conditionals a) + sum_list (map conditionals h)"
| "conditionals s = 0"

fun err_of :: "error + 'a \<Rightarrow> error option" where
  "err_of (Inl e) = Some e"
| "err_of (Inr v) = None"

text \<open>
  A computation that starts at operation count \<open>n\<close>, performs the events \<open>evs\<close> and ends
  at count \<open>n'\<close> with error status \<open>err\<close> is faithful to the library when the count
  advances by one per event and an event on which the library raises is the last event
  of the computation, whose error it determines.
\<close>

definition faithful :: "world \<Rightarrow> nat \<Rightarrow> error option \<Rightarrow> event list \<Rightarrow> nat \<Rightarrow> bool" where
  "faithful w n err evs n' \<longleftrightarrow>
     n' = n + length evs \<and>
     (\<forall>i<length evs. \<forall>e. raises w (n + i) (evs ! i) = Some e \<longrightarrow> Suc i = length evs \<and> err = Some e)"


definition faithful_res :: "world \<Rightarrow> nat \<Rightarrow> (error + 'a) \<times> event list \<times> nat \<Rightarrow> bool" where
  "faithful_res w n t = (case t of (r, evs, n') \<Rightarrow> faithful w n (err_of r) evs n')"

definition faithful_st :: "world \<Rightarrow> nat \<Rightarrow> error option \<times> env \<times> event list \<times> nat \<Rightarrow> bool" where
  "faithful_st w n t = (case t of (r, en, evs, n') \<Rightarrow> faithful w n r evs n')"

text \<open>
  The same world with a library that never raises, and the relation between what a
  computation returns in a world and in its calm counterpart: the same, or an error after
  an initial part of the same events.
\<close>

definition calm :: "world \<Rightarrow> world" where
  "calm w = w\<lparr>raises := (\<lambda>n ev. None)\<rparr>"

definition lag :: "(error + 'a) \<times> event list \<times> nat \<Rightarrow> (error + 'a) \<times> event list \<times> nat \<Rightarrow> bool" where
  "lag m m' \<longleftrightarrow> m = m' \<or> (err_of (fst m) \<noteq> None \<and> prefix (fst (snd m)) (fst (snd m')))"

definition lag_st :: "error option \<times> env \<times> event list \<times> nat
    \<Rightarrow> error option \<times> env \<times> event list \<times> nat \<Rightarrow> bool" where
  "lag_st m m' \<longleftrightarrow>
     m = m' \<or> (fst m \<noteq> None \<and> prefix (fst (snd (snd m))) (fst (snd (snd m'))))"

text \<open>A world in which loading the model file raises.\<close>

definition w_load_fails :: world where
  "w_load_fails =
     \<lparr>rank = 0, nranks = 1, device_count = 1, files = (\<lambda>p. None), argv = [], environ = [],
      raises = (\<lambda>n ev.
        if ev = Op OCall [VGlobal ''numpy.load'', VStr ''../testdata/avo/poststack_model.npz'']
        then Some (LibraryError 1) else None)\<rparr>"


section \<open>The arrays the scripts build before any operator is applied\<close>

text \<open>
  The NumPy calls of lines 42 to 82 decide the shapes of everything that follows. They
  are modelled on arrays in NumPy's own layout: a shape and the elements in row-major
  order. \<open>tab2\<close> and \<open>tab3\<close> list the elements of a two- and three-dimensional array
  given by an index function.
\<close>

record 'a ndarray =
  shape :: "nat list"
  data :: "'a list"

definition well_shaped :: "'a ndarray \<Rightarrow> bool" where
  "well_shaped a \<longleftrightarrow> length (data a) = prod_list (shape a)"

definition tab2 :: "nat \<Rightarrow> nat \<Rightarrow> (nat \<Rightarrow> nat \<Rightarrow> 'a) \<Rightarrow> 'a list" where
  "tab2 A B f = concat (map (\<lambda>i. map (f i) [0..<B]) [0..<A])"

definition tab3 :: "nat \<Rightarrow> nat \<Rightarrow> nat \<Rightarrow> (nat \<Rightarrow> nat \<Rightarrow> nat \<Rightarrow> 'a) \<Rightarrow> 'a list" where
  "tab3 A B C f = concat (map (\<lambda>i. tab2 B C (f i)) [0..<A])"

text \<open>\<open>a[i, j]\<close> of a two-dimensional array with \<open>c\<close> columns.\<close>

definition at2 :: "'a ndarray \<Rightarrow> nat \<Rightarrow> nat \<Rightarrow> 'a" where
  "at2 a i j = data a ! (i * (shape a ! 1) + j)"

text \<open>\<open>np.log(a)\<close>: the natural logarithm of every element.\<close>

definition np_log :: "real ndarray \<Rightarrow> real ndarray" where
  "np_log a = \<lparr>shape = shape a, data = map ln (data a)\<rparr>"

text \<open>\<open>a[:, ::3]\<close> on \<open>r\<close> rows and \<open>c\<close> columns: every third column, starting with the first.\<close>

definition every_third_column :: "nat \<Rightarrow> nat \<Rightarrow> 'a ndarray \<Rightarrow> 'a ndarray" where
  "every_third_column r c a =
     \<lparr>shape = [r, (c + 2) div 3],
      data = tab2 r ((c + 2) div 3) (\<lambda>i j. data a ! (i * c + 3 * j))\<rparr>"

text \<open>\<open>a[:, :, np.newaxis]\<close>: a third axis of length one.\<close>

definition newaxis :: "nat \<Rightarrow> nat \<Rightarrow> 'a ndarray \<Rightarrow> 'a ndarray" where
  "newaxis r c a = \<lparr>shape = [r, c, 1], data = data a\<rparr>"

text \<open>\<open>np.tile(a, (1, 1, n))\<close> on shape \<open>(r, c, k)\<close>: the last axis repeated \<open>n\<close> times.\<close>

definition tile_last :: "nat \<Rightarrow> nat \<Rightarrow> nat \<Rightarrow> nat \<Rightarrow> 'a ndarray \<Rightarrow> 'a ndarray" where
  "tile_last r c k n a =
     \<lparr>shape = [r, c, k * n],
      data = tab3 r c (k * n) (\<lambda>i j l. data a ! ((i * c + j) * k + l mod k))\<rparr>"

text \<open>\<open>a.transpose((2, 1, 0))\<close> on shape \<open>(A, B, C)\<close>.\<close>

definition transpose_210 :: "nat \<Rightarrow> nat \<Rightarrow> nat \<Rightarrow> 'a ndarray \<Rightarrow> 'a ndarray" where
  "transpose_210 A B C a =
     \<lparr>shape = [C, B, A], data = tab3 C B A (\<lambda>l j i. data a ! ((i * B + j) * C + l))\<rparr>"

text \<open>\<open>a.T\<close> on \<open>r\<close> rows and \<open>c\<close> columns.\<close>

definition transpose2 :: "nat \<Rightarrow> nat \<Rightarrow> 'a ndarray \<Rightarrow> 'a ndarray" where
  "transpose2 r c a = \<lparr>shape = [c, r], data = tab2 c r (\<lambda>j i. data a ! (i * c + j))\<rparr>"

text \<open>
  \<open>a[j, :, :]\<close>: in row-major order the \<open>j\<close>-th block of the data. An index beyond the
  first axis, or an array that is not three-dimensional, raises.
\<close>

definition slice_first :: "'a ndarray \<Rightarrow> nat \<Rightarrow> error + 'a ndarray" where
  "slice_first a j =
     (case shape a of
        [A, B, C] \<Rightarrow>
          if j < A then Inr \<lparr>shape = [B, C], data = take (B * C) (drop (j * (B * C)) (data a))\<rparr>
          else Inl IndexError
      | _ \<Rightarrow> Inl IndexError)"

text \<open>Line 46: the size of the model in the y direction on every rank.\<close>

definition ny_i :: nat where
  "ny_i = 20"

text \<open>
  Line 43: \<open>m = np.log(model['model'])[:, ::3]\<close>, and line 48:
  \<open>m3d_i = np.tile(m[:, :, np.newaxis], (1, 1, ny_i)).transpose((2, 1, 0))\<close>. On a model
  with fewer than two axes the slicing raises \<open>IndexError\<close>; on one with more than two the
  transposition with three axes raises \<open>ValueError\<close>.
\<close>

definition m_of :: "real ndarray \<Rightarrow> error + real ndarray" where
  "m_of model =
     (case shape model of
        [r, c] \<Rightarrow> Inr (every_third_column r c (np_log model))
      | [] \<Rightarrow> Inl IndexError
      | [r] \<Rightarrow> Inl IndexError
      | _ \<Rightarrow> Inl ValueError)"

definition m3d_i_of :: "real ndarray \<Rightarrow> error + real ndarray" where
  "m3d_i_of model =
     (case m_of model of
        Inl e \<Rightarrow> Inl e
      | Inr m \<Rightarrow>
          (case shape m of
             [r, c] \<Rightarrow> Inr (transpose_210 r c (1 * ny_i) (tile_last r c 1 ny_i (newaxis r c m)))
           | _ \<Rightarrow> Inl ValueError))"

text \<open>
  The collectives of \<open>MPI.COMM_WORLD\<close>, from the values that the ranks contribute, in rank
  order: \<open>allreduce\<close> with its default operation, the sum, and \<open>allgather\<close>.
\<close>

definition allreduce :: "nat list \<Rightarrow> nat" where
  "allreduce xs = sum_list xs"

definition allgather :: "'a list \<Rightarrow> 'a list" where
  "allgather xs = xs"

text \<open>
  \<open>np.concatenate\<close> along axis 0: the arrays must agree on all other axes, and there must
  be at least one.
\<close>

definition np_concatenate :: "'a ndarray list \<Rightarrow> error + 'a ndarray" where
  "np_concatenate arrs =
     (case arrs of
        [] \<Rightarrow> Inl ValueError
      | a # rest \<Rightarrow>
          (case shape a of
             [] \<Rightarrow> Inl ValueError
           | n # dims \<Rightarrow>
               if list_all (\<lambda>b. shape b \<noteq> [] \<and> tl (shape b) = dims) rest
               then Inr \<lparr>shape = sum_list (map (\<lambda>b. hd (shape b)) arrs) # dims,
                         data = concat (map data arrs)\<rparr>
               else Inl ValueError))"

text \<open>The results of all ranks, or the first error among them.\<close>

fun all_ok :: "(error + 'a) list \<Rightarrow> error + 'a list" where
  "all_ok [] = Inr []"
| "all_ok (Inl e # rs) = Inl e"
| "all_ok (Inr a # rs) = (case all_ok rs of Inl e \<Rightarrow> Inl e | Inr as \<Rightarrow> Inr (a # as))"

text \<open>
  Lines 56 to 58: three passes of \<open>scipy.signal.filtfilt\<close> with box filters of lengths 5,
  30 and 20 along axes 0, 1 and 2. The filter is SciPy's and is a parameter here:
  \<open>filt n axis a\<close> is the filtered array, or the error that \<open>filtfilt\<close> raises.
\<close>

definition smooth :: "(nat \<Rightarrow> nat \<Rightarrow> real ndarray \<Rightarrow> error + real ndarray) \<Rightarrow> real ndarray
    \<Rightarrow> error + real ndarray" where
  "smooth filt a =
     (case filt 5 0 a of
        Inl e \<Rightarrow> Inl e
      | Inr b \<Rightarrow> (case filt 30 1 b of Inl e \<Rightarrow> Inl e | Inr c \<Rightarrow> filt 20 2 c))"

text \<open>What a rank holds when it reaches line 82.\<close>

record arrays =
  local_ny :: nat
  nx :: nat
  nz :: nat
  ny :: nat
  m3d_i :: "real ndarray"
  mback3d_i :: "real ndarray"
  m3d :: "real ndarray"
  mback3d :: "real ndarray"
  global_shape :: nat

text \<open>
  Lines 42 to 82 on rank \<open>r\<close>, when the ranks have loaded the models \<open>models\<close> (one per
  rank, in rank order). A rank that raises before a collective makes the collective fail.
\<close>

definition rank_arrays :: "(nat \<Rightarrow> nat \<Rightarrow> real ndarray \<Rightarrow> error + real ndarray)
    \<Rightarrow> real ndarray list \<Rightarrow> nat \<Rightarrow> error + arrays" where
  "rank_arrays filt models r =
     (case all_ok (map m3d_i_of models) of
        Inl e \<Rightarrow> Inl e
      | Inr tiles \<Rightarrow>
          (case shape (tiles ! r) of
             [a, b, c] \<Rightarrow>
               (case all_ok (map (smooth filt) tiles) of
                  Inl e \<Rightarrow> Inl e
                | Inr backs \<Rightarrow>
                    (case np_concatenate (allgather tiles) of
                       Inl e \<Rightarrow> Inl e
                     | Inr whole \<Rightarrow>
                         (case np_concatenate (allgather backs) of
                            Inl e \<Rightarrow> Inl e
                          | Inr whole_back \<Rightarrow>
                              Inr \<lparr>local_ny = a, nx = b, nz = c,
                                   ny = allreduce (map (\<lambda>t. hd (shape t)) tiles),
                                   m3d_i = tiles ! r, mback3d_i = backs ! r,
                                   m3d = whole, mback3d = whole_back,
                                   global_shape =
                                     allreduce (map (\<lambda>t. hd (shape t)) tiles) * b * c\<rparr>)))
           | _ \<Rightarrow> Inl ValueError))"

text \<open>
  A small model, and a model with 61 depth samples and 271 traces, of which 91 are kept.
\<close>

definition model0 :: "real ndarray" where
  "model0 = \<lparr>shape = [2, 4], data = [1, 2, 3, 4, 5, 6, 7, 8]\<rparr>"

definition model1 :: "real ndarray" where
  "model1 = \<lparr>shape = [61, 271], data = tab2 61 271 (\<lambda>k i. real (k + i + 1))\<rparr>"

text \<open>
  A filter that raises where \<open>filtfilt\<close> does with its default padding, when the axis is
  missing or not longer than three times the filter, and returns its input otherwise.
\<close>

definition filt_pad :: "nat \<Rightarrow> nat \<Rightarrow> real ndarray \<Rightarrow> error + real ndarray" where
  "filt_pad n axis a =
     (if axis < length (shape a) \<and> 3 * n < shape a ! axis then Inr a else Inl ValueError)"


section \<open>Running the scripts symbolically\<close>

text \<open>
  The rewrite rules that run the evaluator: its defining equations, the case and
  conditional rules, equality on the constructors that occur, and the counter arithmetic.
\<close>

lemma list_eq_step: "(x # xs = y # ys) = (if x = y then xs = ys else False)"
  by simp

lemma length_Cons_Suc: "length (x # xs) = Suc (length xs)"
  by simp

lemma int_facts:
  "(41::int) div 2 = 20" "(20::int) + 1 = 21" "((2::int) = 0) = False"
  "((1::int) = 0) = False" "(0::int) mod 1 = 0"
  by simp_all

lemmas run_eval =
  eval.simps evals.simps exec.simps execs.simps assign.simps int_binop.simps outcome.simps
  as_int.simps as_str.simps as_global.simps as_name.simps as_vtuple.simps target_names.simps
  truth.simps items.simps after_def after_stmt_def apply_neg_def
  run_def lib_op_def call_outcome_def apply_call_def get_attr_def apply_binop_def
  builtins_def is_collective_def unpack_def set_item_def
  prod.case sum.case option.case list.case bool.case if_True if_False simp_thms
  append.simps rev.simps lookup.simps zip_Cons_Cons zip_Nil list.size(3) length_Cons_Suc list.map map_option_case
  option.map list_eq_step list.distinct char.inject val.inject val.distinct
  opkind.inject opkind.distinct event.inject option.inject option.distinct
  sum.inject sum.distinct nat.inject nat.distinct fst_conv snd_conv
  add_0 one_add_one numeral_plus_one add_One inc.simps
  prod.inject error.inject error.distinct binop.distinct int_facts


section \<open>The two scripts side by side\<close>

lemma same_model: "cupy_model = nccl_model"
  by (simp add: cupy_model_def nccl_model_def)

lemma same_data: "cupy_data = nccl_data"
  by (simp add: cupy_data_def nccl_data_def)

lemma same_cgls: "cupy_cgls = nccl_cgls"
  by (simp add: cupy_cgls_def nccl_cgls_def)

lemma same_normal: "cupy_normal = nccl_normal"
  by (simp add: cupy_normal_def nccl_normal_def)

lemma same_plots: "cupy_plots = nccl_plots"
  by (simp add: cupy_plots_def nccl_plots_def)

lemma arrays_up_to_comm: "map (strip_kw_stmt ''base_comm_nccl'') nccl_arrays = cupy_arrays"
  by (simp add: cupy_arrays_def nccl_arrays_def)

lemma stacked_up_to_comm: "map (strip_kw_stmt ''base_comm_nccl'') nccl_stacked = cupy_stacked"
  by (simp add: cupy_stacked_def nccl_stacked_def)

lemma operator_tail: "tl cupy_operator = tl nccl_operator"
  by (simp add: cupy_operator_def nccl_operator_def)

lemma check_start: "take 3 cupy_check = take 3 nccl_check"
  by (simp add: cupy_check_def nccl_check_def)

lemma arrays_differ: "cupy_arrays \<noteq> nccl_arrays"
  by (simp add: cupy_arrays_def nccl_arrays_def)

lemma stacked_differ: "cupy_stacked \<noteq> nccl_stacked"
  by (simp add: cupy_stacked_def nccl_stacked_def)

lemmas cupy_body_defs =
  cupy_body_def cupy_model_def cupy_arrays_def cupy_operator_def cupy_data_def cupy_cgls_def
  cupy_normal_def cupy_stacked_def cupy_report_def cupy_check_def cupy_plots_def

lemmas nccl_body_defs =
  nccl_body_def nccl_model_def nccl_arrays_def nccl_operator_def nccl_data_def nccl_cgls_def
  nccl_normal_def nccl_stacked_def nccl_report_def nccl_check_def nccl_plots_def

lemma nccl_comm_places:
  "filter (has_kw ''base_comm_nccl'') (concat (map stmt_calls nccl_body)) =
     replicate 3 (Call DistributedArray
       [Kw ''global_shape'' (BinOp (BinOp (Name ''ny'') Mult (Name ''nx'')) Mult (Name ''nz'')),
        Kw ''base_comm_nccl'' (Name ''nccl_comm''), Kw ''engine'' (Str ''cupy'')])
   \<and> calls_of DistributedArray nccl_body =
     replicate 3
       [Kw ''global_shape'' (BinOp (BinOp (Name ''ny'') Mult (Name ''nx'')) Mult (Name ''nz'')),
        Kw ''base_comm_nccl'' (Name ''nccl_comm''), Kw ''engine'' (Str ''cupy'')]"
  by (simp add: calls_of_def DistributedArray_def nccl_body_defs numeral_3_eq_3)

lemma cupy_comm_places:
  "filter (has_kw ''base_comm_nccl'') (concat (map stmt_calls cupy_body)) = []
   \<and> calls_of DistributedArray cupy_body =
     replicate 3
       [Kw ''global_shape'' (BinOp (BinOp (Name ''ny'') Mult (Name ''nx'')) Mult (Name ''nz'')),
        Kw ''engine'' (Str ''cupy'')]"
  by (simp add: calls_of_def DistributedArray_def cupy_body_defs numeral_3_eq_3)

text \<open>
  C1, as stated: after initialization the two scripts perform the same operations with
  the same arguments. It fails: the statement lists after the set-up blocks are not
  equal. The first difference is the construction of \<open>m3d_dist\<close>, which receives
  \<open>base_comm_nccl=nccl_comm\<close> in the NCCL script only.
\<close>

theorem C1_bodies_differ: "cupy_body \<noteq> nccl_body"
proof -
  have "length cupy_arrays = length nccl_arrays"
    by (simp add: cupy_arrays_def nccl_arrays_def)
  then show ?thesis
    using arrays_differ by (simp add: cupy_body_def nccl_body_def same_model)
qed

text \<open>
  C1, amended: after initialization the two scripts are identical except in three places.
  (a) The NCCL script gives the keyword \<open>base_comm_nccl=nccl_comm\<close> to its three
  \<open>DistributedArray\<close> constructions, between \<open>global_shape\<close> and \<open>engine\<close>, and to no
  other call; the CuPy script gives it to none; with that keyword removed, the array and
  stacked blocks coincide. (b) The first statement of the operator block gives
  \<open>PoststackLinearModelling\<close> the wavelet \<open>cp.asarray(wav.astype(np.float32))\<close> by
  position in the CuPy script and \<open>wav=cp.asarray(wav)\<close> by keyword in the NCCL script;
  the rest of the block coincides. (c) The two comparison prints call
  \<open>np.allclose(cp.asnumpy(d), d0, atol=1e-6)\<close> in the CuPy script and
  \<open>np.allclose(d, d0)\<close> in the NCCL script (and the same for \<open>d_0\<close>, \<open>d0_0\<close>); the three
  statements before them and the condition \<open>rank == 0\<close> coincide. The model, data, CGLS,
  normal-equations and plotting blocks are equal statement by statement.
\<close>

theorem C1_same_up_to_three_places:
  "cupy_model = nccl_model \<and> cupy_data = nccl_data \<and> cupy_cgls = nccl_cgls
   \<and> cupy_normal = nccl_normal \<and> cupy_plots = nccl_plots
   \<and> map (strip_kw_stmt ''base_comm_nccl'') nccl_arrays = cupy_arrays
   \<and> map (strip_kw_stmt ''base_comm_nccl'') nccl_stacked = cupy_stacked
   \<and> filter (has_kw ''base_comm_nccl'') (concat (map stmt_calls nccl_body)) =
       replicate 3 (Call DistributedArray
         [Kw ''global_shape'' (BinOp (BinOp (Name ''ny'') Mult (Name ''nx'')) Mult (Name ''nz'')),
          Kw ''base_comm_nccl'' (Name ''nccl_comm''), Kw ''engine'' (Str ''cupy'')])
   \<and> calls_of DistributedArray nccl_body =
       replicate 3
         [Kw ''global_shape'' (BinOp (BinOp (Name ''ny'') Mult (Name ''nx'')) Mult (Name ''nz'')),
          Kw ''base_comm_nccl'' (Name ''nccl_comm''), Kw ''engine'' (Str ''cupy'')]
   \<and> filter (has_kw ''base_comm_nccl'') (concat (map stmt_calls cupy_body)) = []
   \<and> calls_of DistributedArray cupy_body =
       replicate 3
         [Kw ''global_shape'' (BinOp (BinOp (Name ''ny'') Mult (Name ''nx'')) Mult (Name ''nz'')),
          Kw ''engine'' (Str ''cupy'')]
   \<and> cupy_arrays \<noteq> nccl_arrays \<and> cupy_stacked \<noteq> nccl_stacked
   \<and> length cupy_operator = 3 \<and> length nccl_operator = 3
   \<and> tl cupy_operator = tl nccl_operator
   \<and> hd cupy_operator =
       Assign (Name ''PPop'') (Call (Name ''PoststackLinearModelling'')
         [Call (Attr (Name ''cp'') ''asarray'')
            [Call (Attr (Name ''wav'') ''astype'') [Attr (Name ''np'') ''float32'']],
          Kw ''nt0'' (Name ''nz''), Kw ''spatdims'' (Tuple [Name ''ny_i'', Name ''nx''])])
   \<and> hd nccl_operator =
       Assign (Name ''PPop'') (Call (Name ''PoststackLinearModelling'')
         [Kw ''wav'' (Call (Attr (Name ''cp'') ''asarray'') [Name ''wav'']),
          Kw ''nt0'' (Name ''nz''), Kw ''spatdims'' (Tuple [Name ''ny_i'', Name ''nx''])])
   \<and> hd cupy_operator \<noteq> hd nccl_operator
   \<and> length cupy_check = 5 \<and> length nccl_check = 5 \<and> take 3 cupy_check = take 3 nccl_check
   \<and> drop 3 cupy_check =
       [ExprStmt (Call (Name ''print'') [Str ''Distr == Local'',
          Call (Attr (Name ''np'') ''allclose'')
            [Call (Attr (Name ''cp'') ''asnumpy'') [Name ''d''], Name ''d0'',
             Kw ''atol'' (FloatLit ''1e-6'')]]),
        ExprStmt (Call (Name ''print'') [Str ''Smooth Distr == Local'',
          Call (Attr (Name ''np'') ''allclose'')
            [Call (Attr (Name ''cp'') ''asnumpy'') [Name ''d_0''], Name ''d0_0'',
             Kw ''atol'' (FloatLit ''1e-6'')]])]
   \<and> drop 3 nccl_check =
       [ExprStmt (Call (Name ''print'') [Str ''Distr == Local'',
          Call (Attr (Name ''np'') ''allclose'') [Name ''d'', Name ''d0'']]),
        ExprStmt (Call (Name ''print'') [Str ''Smooth Distr == Local'',
          Call (Attr (Name ''np'') ''allclose'') [Name ''d_0'', Name ''d0_0'']])]
   \<and> drop 3 cupy_check \<noteq> drop 3 nccl_check
   \<and> cupy_report = [If (BinOp (Name ''rank'') Eq (Num 0)) (cupy_check @ cupy_plots) []]
   \<and> nccl_report = [If (BinOp (Name ''rank'') Eq (Num 0)) (nccl_check @ nccl_plots) []]"
proof -
  have blocks: "cupy_model = nccl_model \<and> cupy_data = nccl_data \<and> cupy_cgls = nccl_cgls
      \<and> cupy_normal = nccl_normal \<and> cupy_plots = nccl_plots
      \<and> map (strip_kw_stmt ''base_comm_nccl'') nccl_arrays = cupy_arrays
      \<and> map (strip_kw_stmt ''base_comm_nccl'') nccl_stacked = cupy_stacked"
    using same_model same_data same_cgls same_normal same_plots arrays_up_to_comm
      stacked_up_to_comm by simp
  have differ: "cupy_arrays \<noteq> nccl_arrays \<and> cupy_stacked \<noteq> nccl_stacked"
    using arrays_differ stacked_differ by simp
  have operator: "length cupy_operator = 3 \<and> length nccl_operator = 3
      \<and> tl cupy_operator = tl nccl_operator
      \<and> hd cupy_operator =
         Assign (Name ''PPop'') (Call (Name ''PoststackLinearModelling'')
           [Call (Attr (Name ''cp'') ''asarray'')
              [Call (Attr (Name ''wav'') ''astype'') [Attr (Name ''np'') ''float32'']],
            Kw ''nt0'' (Name ''nz''), Kw ''spatdims'' (Tuple [Name ''ny_i'', Name ''nx''])])
      \<and> hd nccl_operator =
         Assign (Name ''PPop'') (Call (Name ''PoststackLinearModelling'')
           [Kw ''wav'' (Call (Attr (Name ''cp'') ''asarray'') [Name ''wav'']),
            Kw ''nt0'' (Name ''nz''), Kw ''spatdims'' (Tuple [Name ''ny_i'', Name ''nx''])])
      \<and> hd cupy_operator \<noteq> hd nccl_operator"
    by (simp add: cupy_operator_def nccl_operator_def)
  have check: "length cupy_check = 5 \<and> length nccl_check = 5
      \<and> take 3 cupy_check = take 3 nccl_check
      \<and> drop 3 cupy_check =
         [ExprStmt (Call (Name ''print'') [Str ''Distr == Local'',
            Call (Attr (Name ''np'') ''allclose'')
              [Call (Attr (Name ''cp'') ''asnumpy'') [Name ''d''], Name ''d0'',
               Kw ''atol'' (FloatLit ''1e-6'')]]),
          ExprStmt (Call (Name ''print'') [Str ''Smooth Distr == Local'',
            Call (Attr (Name ''np'') ''allclose'')
              [Call (Attr (Name ''cp'') ''asnumpy'') [Name ''d_0''], Name ''d0_0'',
               Kw ''atol'' (FloatLit ''1e-6'')]])]
      \<and> drop 3 nccl_check =
         [ExprStmt (Call (Name ''print'') [Str ''Distr == Local'',
            Call (Attr (Name ''np'') ''allclose'') [Name ''d'', Name ''d0'']]),
          ExprStmt (Call (Name ''print'') [Str ''Smooth Distr == Local'',
            Call (Attr (Name ''np'') ''allclose'') [Name ''d_0'', Name ''d0_0'']])]
      \<and> drop 3 cupy_check \<noteq> drop 3 nccl_check"
    by (simp add: cupy_check_def nccl_check_def)
  have report: "cupy_report = [If (BinOp (Name ''rank'') Eq (Num 0)) (cupy_check @ cupy_plots) []]
      \<and> nccl_report = [If (BinOp (Name ''rank'') Eq (Num 0)) (nccl_check @ nccl_plots) []]"
    by (simp add: cupy_report_def nccl_report_def)
  show ?thesis
    using blocks nccl_comm_places cupy_comm_places differ operator check report by simp
qed

section \<open>Errors of library operations are never handled\<close>

lemma faithful_nil: "faithful w n err [] n"
  by (simp add: faithful_def)

lemma faithful_comp:
  assumes "faithful w n None evs1 n1" and "faithful w n1 err evs2 n2"
  shows "faithful w n err (evs1 @ evs2) n2"
proof -
  have len: "n1 = n + length evs1" "n2 = n1 + length evs2"
    using assms by (simp_all add: faithful_def)
  have quiet: "raises w (n + i) (evs1 ! i) \<noteq> Some e" if "i < length evs1" for i e
    using assms(1) that by (auto simp: faithful_def)
  have late: "Suc j = length evs2 \<and> err = Some e"
    if "j < length evs2" and "raises w (n1 + j) (evs2 ! j) = Some e" for j e
    using assms(2) that by (auto simp: faithful_def)
  have step: "Suc i = length (evs1 @ evs2) \<and> err = Some e"
    if i: "i < length (evs1 @ evs2)"
      and r: "raises w (n + i) ((evs1 @ evs2) ! i) = Some e" for i e
  proof (cases "i < length evs1")
    case True
    with r quiet [of i e] show ?thesis
      by (simp add: nth_append)
  next
    case False
    have j: "i - length evs1 < length evs2"
      using False i by simp
    have "raises w (n1 + (i - length evs1)) (evs2 ! (i - length evs1)) = Some e"
      using r False len by (simp add: nth_append)
    from late [OF j this] False show ?thesis
      by auto
  qed
  show ?thesis
    unfolding faithful_def using len step by auto
qed

lemma faithful_pure: "faithful_res w n (r, [], n)"
  by (simp add: faithful_res_def faithful_nil)

lemma faithful_lib_op: "faithful_res w n (lib_op w k vs n)"
  by (auto simp: faithful_res_def lib_op_def faithful_def split: option.splits)

lemma faithful_apply_call: "faithful_res w n (apply_call w f vs n)"
  by (simp add: apply_call_def faithful_lib_op split: option.splits)

lemma faithful_get_attr: "faithful_res w n (get_attr w v a n)"
  by (simp add: get_attr_def faithful_lib_op faithful_pure split: option.splits)

lemma faithful_int_binop: "faithful_res w n (int_binop w bop a b n)"
  by (cases bop) (simp_all add: faithful_lib_op faithful_pure)

lemma faithful_apply_binop: "faithful_res w n (apply_binop w bop a b n)"
  by (simp add: apply_binop_def faithful_lib_op faithful_int_binop split: option.splits)

lemma faithful_apply_neg: "faithful_res w n (apply_neg w v n)"
  by (simp add: apply_neg_def faithful_lib_op faithful_pure split: option.splits)

lemma faithful_bind:
  assumes "faithful_res w n m"
    and "\<And>v evs n1. m = (Inr v, evs, n1) \<Longrightarrow> faithful_res w n1 (k v n1)"
  shows "faithful_res w n
     (case m of (Inl err, evs, n1) \<Rightarrow> (Inl err, evs, n1)
      | (Inr v, evs, n1) \<Rightarrow> after evs (k v n1))"
proof -
  obtain r evs n1 where m: "m = (r, evs, n1)"
    by (cases m) auto
  show ?thesis
  proof (cases r)
    case (Inl err)
    with m assms(1) show ?thesis by (simp add: faithful_res_def)
  next
    case (Inr v)
    obtain r2 evs2 n2 where k: "k v n1 = (r2, evs2, n2)"
      by (cases "k v n1") auto
    have "faithful w n None evs n1"
      using assms(1) m Inr by (simp add: faithful_res_def)
    moreover have "faithful w n1 (err_of r2) evs2 n2"
      using assms(2) [of v evs n1] m Inr k by (simp add: faithful_res_def)
    ultimately have "faithful w n (err_of r2) (evs @ evs2) n2"
      by (rule faithful_comp)
    with m Inr k show ?thesis
      by (simp add: after_def faithful_res_def)
  qed
qed

lemma faithful_map:
  assumes "faithful_res w n m"
  shows "faithful_res w n
     (case m of (Inl err, evs, n1) \<Rightarrow> (Inl err, evs, n1)
      | (Inr v, evs, n1) \<Rightarrow> (Inr (g v), evs, n1))"
  using assms by (auto simp: faithful_res_def split: prod.splits sum.splits)

lemmas faithful_ops = faithful_pure faithful_lib_op faithful_apply_call faithful_get_attr
  faithful_apply_binop faithful_apply_neg

lemma faithful_eval_evals:
  "faithful_res w n (eval w en e n)"
  "faithful_res w n (evals w en es n)"
proof (induction w en e n and w en es n rule: eval_evals.induct)
  case (1 w en x n)
  then show ?case by (simp add: faithful_pure split: option.splits)
next
  case (7 w en e a n)
  then show ?case by (auto intro!: faithful_bind faithful_ops)
next
  case (8 w en f args n)
  then show ?case by (auto intro!: faithful_bind faithful_ops)
next
  case (9 w en k e n)
  then show ?case by (auto intro!: faithful_map)
next
  case (10 w en es n)
  then show ?case by (auto intro!: faithful_map)
next
  case (11 w en es n)
  then show ?case by (auto intro!: faithful_map)
next
  case (12 w en e i n)
  then show ?case by (auto intro!: faithful_bind faithful_ops)
next
  case (13 w en a b c n)
  then show ?case by (auto intro!: faithful_bind faithful_map faithful_ops)
next
  case (14 w en a bop b n)
  then show ?case by (auto intro!: faithful_bind faithful_ops)
next
  case (15 w en e n)
  then show ?case by (auto intro!: faithful_bind faithful_ops)
next
  case (17 w en e es n)
  then show ?case by (auto intro!: faithful_bind faithful_map faithful_ops)
qed (simp_all add: faithful_pure)

lemma faithful_evalD:
  "eval w en e n = (r, evs, n') \<Longrightarrow> faithful w n (err_of r) evs n'"
  using faithful_eval_evals(1) [of w n en e] by (simp add: faithful_res_def)

lemma faithful_lib_opD:
  "lib_op w k vs n = (r, evs, n') \<Longrightarrow> faithful w n (err_of r) evs n'"
  using faithful_lib_op [of w n k vs] by (simp add: faithful_res_def)

lemma faithful_weaken: "faithful w n None evs n' \<Longrightarrow> faithful w n err evs n'"
  by (auto simp: faithful_def)

lemma faithful_unpack: "faithful_st w n (unpack w xs v en n)"
  by (auto simp: unpack_def faithful_st_def faithful_nil
      split: option.splits prod.splits sum.splits dest: faithful_lib_opD)

lemma faithful_after_stmt:
  assumes "faithful w n None evs n1" and "faithful_st w n1 m"
  shows "faithful_st w n (after_stmt evs m)"
  using assms by (cases m) (auto simp: faithful_st_def after_stmt_def intro: faithful_comp)

lemma faithful_st_bind:
  assumes "faithful_res w n m"
    and "\<And>v evs n1. m = (Inr v, evs, n1) \<Longrightarrow> faithful_st w n1 (k v n1)"
  shows "faithful_st w n
     (case m of (Inl err, evs, n1) \<Rightarrow> (Some err, en, evs, n1)
      | (Inr v, evs, n1) \<Rightarrow> after_stmt evs (k v n1))"
proof -
  obtain r evs n1 where m: "m = (r, evs, n1)"
    by (cases m) auto
  show ?thesis
  proof (cases r)
    case (Inl err)
    with m assms(1) show ?thesis by (simp add: faithful_res_def faithful_st_def)
  next
    case (Inr v)
    have "faithful w n None evs n1"
      using assms(1) m Inr by (simp add: faithful_res_def)
    with assms(2) [of v evs n1] m Inr show ?thesis
      by (simp add: faithful_after_stmt)
  qed
qed

lemma faithful_st_res:
  assumes "faithful_res w n m"
  shows "faithful_st w n
     (case m of (Inl err, evs, n1) \<Rightarrow> (Some err, en, evs, n1)
      | (Inr v, evs, n1) \<Rightarrow> (None, g v, evs, n1))"
  using assms by (auto simp: faithful_res_def faithful_st_def split: prod.splits sum.splits)

lemma faithful_set_item: "faithful_st w n (set_item w e i v en n)"
proof (cases "as_name e")
  case None
  then show ?thesis
    by (simp add: set_item_def faithful_st_def faithful_nil)
next
  case (Some x)
  show ?thesis
    unfolding set_item_def Some option.case
    by (intro faithful_st_bind faithful_st_res faithful_eval_evals faithful_lib_op)
qed

lemma faithful_st_pure: "faithful_st w n (r, en, [], n)"
  by (simp add: faithful_st_def faithful_nil)

lemma faithful_assign: "faithful_st w n (assign w t v en n)"
  by (cases t)
    (simp_all add: faithful_unpack faithful_set_item faithful_st_pure split: option.splits)

lemma faithful_assignD:
  "assign w t v en n = (r, en', evs, n') \<Longrightarrow> faithful w n r evs n'"
  using faithful_assign [of w n t v en] by (simp add: faithful_st_def)

lemma faithful_exec_execs:
  "no_try s \<Longrightarrow> faithful_st w n (exec w s en n)"
  "list_all no_try ss \<Longrightarrow> faithful_st w n (execs w ss en n)"
proof (induction w s en n and w ss en n rule: exec_execs.induct)
  case (1 w m a en n)
  then show ?case
    by (auto simp: faithful_st_def split: prod.splits sum.splits dest: faithful_lib_opD)
next
  case (2 w m x a en n)
  then show ?case
    by (auto simp: faithful_st_def split: prod.splits sum.splits dest: faithful_lib_opD)
next
  case (3 w t e en n)
  obtain r evs n1 where e1: "eval w en e n = (r, evs, n1)"
    by (cases "eval w en e n") auto
  note f1 = faithful_evalD [OF e1]
  show ?case
  proof (cases r)
    case (Inl err)
    with e1 f1 show ?thesis by (simp add: faithful_st_def)
  next
    case (Inr v)
    with e1 f1 show ?thesis
      by (simp add: faithful_after_stmt faithful_assign)
  qed
next
  case (4 w e en n)
  obtain r evs n1 where e1: "eval w en e n = (r, evs, n1)"
    by (cases "eval w en e n") auto
  note f1 = faithful_evalD [OF e1]
  show ?case
    using e1 f1 by (cases r) (simp_all add: faithful_st_def)
next
  case (5 w c a b en n)
  obtain r evs n1 where e1: "eval w en c n = (r, evs, n1)"
    by (cases "eval w en c n") auto
  note f1 = faithful_evalD [OF e1]
  show ?case
  proof (cases r)
    case (Inl err)
    with e1 f1 show ?thesis by (simp add: faithful_st_def)
  next
    case (Inr v)
    show ?thesis
    proof (cases "truth v")
      case None
      with e1 f1 Inr show ?thesis
        by (simp add: faithful_st_def faithful_weaken)
    next
      case (Some t)
      have "faithful_st w n1 (if t then execs w a en n1 else execs w b en n1)"
        using "5.IH" [OF e1 [symmetric]] Inr Some "5.prems" by (cases t) auto
      with e1 f1 Inr Some show ?thesis
        by (simp add: faithful_after_stmt)
    qed
  qed
next
  case (6 w a h en n)
  then show ?case by simp
next
  case (7 w en n)
  then show ?case by (simp add: faithful_st_def faithful_nil)
next
  case (8 w s ss en n)
  obtain r en1 evs n1 where e1: "exec w s en n = (r, en1, evs, n1)"
    by (cases "exec w s en n") auto
  have f1: "faithful w n r evs n1"
    using "8.IH"(1) "8.prems" e1 by (simp add: faithful_st_def)
  show ?case
  proof (cases r)
    case None
    have "faithful_st w n1 (execs w ss en1 n1)"
      using "8.IH"(2) [OF e1 [symmetric]] None "8.prems" by simp
    with e1 f1 None show ?thesis
      by (simp add: faithful_after_stmt)
  next
    case (Some err)
    with e1 f1 show ?thesis by (simp add: faithful_st_def)
  qed
qed

text \<open>
  In a program without exception handlers, an operation on which the library raises is
  the last operation of the run, and its error is the error that escapes the program.
\<close>

lemma raise_escapes:
  assumes "list_all no_try prog" and "run w prog = (r, en, evs)"
    and "i < length evs" and "raises w i (evs ! i) = Some e"
  shows "r = Some e \<and> Suc i = length evs"
proof -
  obtain n where ex: "execs w prog builtins 0 = (r, en, evs, n)"
    using assms(2) by (cases "execs w prog builtins 0") (auto simp: run_def)
  have "faithful w 0 r evs n"
    using faithful_exec_execs(2) [OF assms(1), of w 0 builtins] ex
    by (simp add: faithful_st_def)
  with assms(3,4) show ?thesis
    by (auto simp: faithful_def)
qed


section \<open>A run and the run of the same script with a library that never raises\<close>

lemma outcome_calm: "outcome (calm w) k vs n = outcome w k vs n"
  by (cases k) (simp_all add: call_outcome_def calm_def split: list.splits option.splits)

lemma lag_refl: "lag m m"
  by (simp add: lag_def)

lemma lag_st_refl: "lag_st m m"
  by (simp add: lag_st_def)

lemma lag_lib_op: "lag (lib_op w k vs n) (lib_op (calm w) k vs n)"
proof -
  have "raises (calm w) n (Op k vs) = None"
    by (simp add: calm_def)
  then show ?thesis
    by (cases "raises w n (Op k vs)") (simp_all add: lib_op_def lag_def outcome_calm)
qed

lemma lag_apply_call: "lag (apply_call w f vs n) (apply_call (calm w) f vs n)"
proof -
  have "nranks (calm w) = nranks w"
    by (simp add: calm_def)
  then show ?thesis
    by (simp add: apply_call_def lag_lib_op split: option.splits)
qed

lemma lag_get_attr: "lag (get_attr w v a n) (get_attr (calm w) v a n)"
proof -
  have "argv (calm w) = argv w" "environ (calm w) = environ w"
    by (simp_all add: calm_def)
  then show ?thesis
    by (simp add: get_attr_def lag_lib_op lag_refl split: option.splits)
qed

lemma lag_int_binop: "lag (int_binop w bop a b n) (int_binop (calm w) bop a b n)"
  by (cases bop) (simp_all add: lag_lib_op lag_refl)

lemma lag_apply_binop: "lag (apply_binop w bop a b n) (apply_binop (calm w) bop a b n)"
  by (simp add: apply_binop_def lag_lib_op lag_int_binop split: option.splits)

lemma lag_apply_neg: "lag (apply_neg w v n) (apply_neg (calm w) v n)"
  by (simp add: apply_neg_def lag_lib_op lag_refl split: option.splits)

lemma lag_after: "lag m m' \<Longrightarrow> lag (after evs m) (after evs m')"
  by (cases m; cases m') (auto simp: lag_def after_def)

lemma lag_after_stmt: "lag_st m m' \<Longrightarrow> lag_st (after_stmt evs m) (after_stmt evs m')"
  by (cases m; cases m') (auto simp: lag_st_def after_stmt_def)

lemma lag_bind:
  assumes "lag m m'"
    and "\<And>v evs n1. m = (Inr v, evs, n1) \<Longrightarrow> lag (k v n1) (k' v n1)"
  shows "lag
     (case m of (Inl err, evs, n1) \<Rightarrow> (Inl err, evs, n1)
      | (Inr v, evs, n1) \<Rightarrow> after evs (k v n1))
     (case m' of (Inl err, evs, n1) \<Rightarrow> (Inl err, evs, n1)
      | (Inr v, evs, n1) \<Rightarrow> after evs (k' v n1))"
proof -
  obtain r evs n1 where m: "m = (r, evs, n1)"
    by (cases m) auto
  obtain r' evs' n1' where m': "m' = (r', evs', n1')"
    by (cases m') auto
  show ?thesis
  proof (cases "m = m'")
    case True
    then have m'': "m' = (r, evs, n1)"
      using m by simp
    show ?thesis
    proof (cases r)
      case (Inl err)
      then show ?thesis
        unfolding m m'' by (simp add: lag_def)
    next
      case (Inr v)
      with assms(2) [of v evs n1] m show ?thesis
        unfolding m m'' by (simp add: lag_after)
    qed
  next
    case False
    with assms(1) m m' obtain e where e: "r = Inl e" and p: "prefix evs evs'"
      by (cases r) (auto simp: lag_def)
    have "prefix evs (fst (snd (case m' of (Inl err, evs, n1) \<Rightarrow> (Inl err, evs, n1)
        | (Inr v, evs, n1) \<Rightarrow> after evs (k' v n1))))"
      using p m' by (cases r'; cases "k' (projr r') n1'") (auto simp: after_def)
    with e m show ?thesis
      by (simp add: lag_def)
  qed
qed

lemma lag_map:
  assumes "lag m m'"
  shows "lag
     (case m of (Inl err, evs, n1) \<Rightarrow> (Inl err, evs, n1)
      | (Inr v, evs, n1) \<Rightarrow> (Inr (g v), evs, n1))
     (case m' of (Inl err, evs, n1) \<Rightarrow> (Inl err, evs, n1)
      | (Inr v, evs, n1) \<Rightarrow> (Inr (g v), evs, n1))"
  using assms by (cases m; cases m') (auto simp: lag_def split: sum.splits)

lemmas lag_ops = lag_refl lag_lib_op lag_apply_call lag_get_attr lag_apply_binop lag_apply_neg

lemma lag_eval_evals:
  "lag (eval w en e n) (eval (calm w) en e n)"
  "lag (evals w en es n) (evals (calm w) en es n)"
proof (induction w en e n and w en es n rule: eval_evals.induct)
  case (1 w en x n)
  then show ?case by (simp add: lag_refl split: option.splits)
next
  case (7 w en e a n)
  then show ?case by (auto intro!: lag_bind lag_ops)
next
  case (8 w en f args n)
  then show ?case by (auto intro!: lag_bind lag_ops)
next
  case (9 w en k e n)
  then show ?case by (auto intro!: lag_map)
next
  case (10 w en es n)
  then show ?case by (auto intro!: lag_map)
next
  case (11 w en es n)
  then show ?case by (auto intro!: lag_map)
next
  case (12 w en e i n)
  then show ?case by (auto intro!: lag_bind lag_ops)
next
  case (13 w en a b c n)
  then show ?case by (auto intro!: lag_bind lag_map lag_ops)
next
  case (14 w en a bop b n)
  then show ?case by (auto intro!: lag_bind lag_ops)
next
  case (15 w en e n)
  then show ?case by (auto intro!: lag_bind lag_ops)
next
  case (17 w en e es n)
  then show ?case by (auto intro!: lag_bind lag_map lag_ops)
qed (simp_all add: lag_refl)

lemma lag_st_bind:
  assumes "lag m m'"
    and "\<And>v evs n1. m = (Inr v, evs, n1) \<Longrightarrow> lag_st (k v n1) (k' v n1)"
  shows "lag_st
     (case m of (Inl err, evs, n1) \<Rightarrow> (Some err, en, evs, n1)
      | (Inr v, evs, n1) \<Rightarrow> after_stmt evs (k v n1))
     (case m' of (Inl err, evs, n1) \<Rightarrow> (Some err, en, evs, n1)
      | (Inr v, evs, n1) \<Rightarrow> after_stmt evs (k' v n1))"
proof -
  obtain r evs n1 where m: "m = (r, evs, n1)"
    by (cases m) auto
  obtain r' evs' n1' where m': "m' = (r', evs', n1')"
    by (cases m') auto
  show ?thesis
  proof (cases "m = m'")
    case True
    then have m'': "m' = (r, evs, n1)"
      using m by simp
    show ?thesis
    proof (cases r)
      case (Inl err)
      then show ?thesis
        unfolding m m'' by (simp add: lag_st_def)
    next
      case (Inr v)
      with assms(2) [of v evs n1] m show ?thesis
        unfolding m m'' by (simp add: lag_after_stmt)
    qed
  next
    case False
    with assms(1) m m' obtain e where e: "r = Inl e" and p: "prefix evs evs'"
      by (cases r) (auto simp: lag_def)
    have "prefix evs (fst (snd (snd (case m' of (Inl err, evs, n1) \<Rightarrow> (Some err, en, evs, n1)
        | (Inr v, evs, n1) \<Rightarrow> after_stmt evs (k' v n1)))))"
      using p m' by (cases r'; cases "k' (projr r') n1'") (auto simp: after_stmt_def)
    with e m show ?thesis
      by (simp add: lag_st_def)
  qed
qed

lemma lag_st_res:
  assumes "lag m m'"
  shows "lag_st
     (case m of (Inl err, evs, n1) \<Rightarrow> (Some err, en, evs, n1)
      | (Inr v, evs, n1) \<Rightarrow> (None, g v, evs, n1))
     (case m' of (Inl err, evs, n1) \<Rightarrow> (Some err, en, evs, n1)
      | (Inr v, evs, n1) \<Rightarrow> (None, g v, evs, n1))"
  using assms by (cases m; cases m') (auto simp: lag_def lag_st_def split: sum.splits)

lemma lag_st_seq:
  assumes "lag_st m m'"
    and "\<And>en1 evs n1. m = (None, en1, evs, n1) \<Longrightarrow> lag_st (k en1 n1) (k' en1 n1)"
  shows "lag_st
     (case m of (Some err, en1, evs, n1) \<Rightarrow> (Some err, en1, evs, n1)
      | (None, en1, evs, n1) \<Rightarrow> after_stmt evs (k en1 n1))
     (case m' of (Some err, en1, evs, n1) \<Rightarrow> (Some err, en1, evs, n1)
      | (None, en1, evs, n1) \<Rightarrow> after_stmt evs (k' en1 n1))"
proof -
  obtain r en1 evs n1 where m: "m = (r, en1, evs, n1)"
    by (cases m) auto
  obtain r' en1' evs' n1' where m': "m' = (r', en1', evs', n1')"
    by (cases m') auto
  show ?thesis
  proof (cases "m = m'")
    case True
    then have m'': "m' = (r, en1, evs, n1)"
      using m by simp
    show ?thesis
    proof (cases r)
      case None
      with assms(2) [of en1 evs n1] m show ?thesis
        unfolding m m'' by (simp add: lag_after_stmt)
    next
      case (Some err)
      then show ?thesis
        unfolding m m'' by (simp add: lag_st_def)
    qed
  next
    case False
    with assms(1) m m' obtain e where e: "r = Some e" and p: "prefix evs evs'"
      by (auto simp: lag_st_def)
    have "prefix evs (fst (snd (snd (case m' of (Some err, en1, evs, n1) \<Rightarrow> (Some err, en1, evs, n1)
        | (None, en1, evs, n1) \<Rightarrow> after_stmt evs (k' en1 n1)))))"
      using p m' by (cases r'; cases "k' en1' n1'") (auto simp: after_stmt_def)
    with e m show ?thesis
      by (simp add: lag_st_def)
  qed
qed

lemma lag_unpack: "lag_st (unpack w xs v en n) (unpack (calm w) xs v en n)"
proof (cases "as_vtuple v")
  case None
  show ?thesis
    unfolding unpack_def None option.case
    by (intro lag_st_res lag_lib_op)
next
  case (Some vs)
  then show ?thesis
    by (simp add: unpack_def lag_st_refl)
qed

lemma lag_set_item: "lag_st (set_item w e i v en n) (set_item (calm w) e i v en n)"
proof (cases "as_name e")
  case None
  then show ?thesis
    by (simp add: set_item_def lag_st_refl)
next
  case (Some x)
  show ?thesis
    unfolding set_item_def Some option.case
    by (intro lag_st_bind lag_st_res lag_eval_evals lag_lib_op)
qed

lemma lag_assign: "lag_st (assign w t v en n) (assign (calm w) t v en n)"
  by (cases t) (simp_all add: lag_unpack lag_set_item lag_st_refl split: option.splits)

lemma exec_If:
  "exec w (If c a b) en n =
     (case eval w en c n of
        (Inl err, evs, n1) \<Rightarrow> (Some err, en, evs, n1)
      | (Inr v, evs, n1) \<Rightarrow>
          after_stmt evs
            (case truth v of
               None \<Rightarrow> (Some TypeError, en, [], n1)
             | Some t \<Rightarrow> if t then execs w a en n1 else execs w b en n1))"
  by (auto simp: after_stmt_def split: prod.splits sum.splits option.splits)

lemma lag_exec_execs:
  "no_try s \<Longrightarrow> lag_st (exec w s en n) (exec (calm w) s en n)"
  "list_all no_try ss \<Longrightarrow> lag_st (execs w ss en n) (execs (calm w) ss en n)"
proof (induction w s en n and w ss en n rule: exec_execs.induct)
  case (1 w m a en n)
  show ?case
    unfolding exec.simps by (intro lag_st_res lag_lib_op)
next
  case (2 w m x a en n)
  show ?case
    unfolding exec.simps by (intro lag_st_res lag_lib_op)
next
  case (3 w t e en n)
  show ?case
    unfolding exec.simps by (intro lag_st_bind lag_eval_evals lag_assign)
next
  case (4 w e en n)
  show ?case
    unfolding exec.simps by (intro lag_st_res lag_eval_evals)
next
  case (5 w c a b en n)
  show ?case
    unfolding exec_If
  proof (intro lag_st_bind lag_eval_evals)
    fix v evs n1
    assume e: "eval w en c n = (Inr v, evs, n1)"
    show "lag_st
        (case truth v of None \<Rightarrow> (Some TypeError, en, [], n1)
         | Some t \<Rightarrow> if t then execs w a en n1 else execs w b en n1)
        (case truth v of None \<Rightarrow> (Some TypeError, en, [], n1)
         | Some t \<Rightarrow> if t then execs (calm w) a en n1 else execs (calm w) b en n1)"
    proof (cases "truth v")
      case None
      then show ?thesis by (simp add: lag_st_refl)
    next
      case (Some t)
      with "5.IH" [OF e [symmetric]] "5.prems" show ?thesis
        by (cases t) auto
    qed
  qed
next
  case (6 w a h en n)
  then show ?case by simp
next
  case (7 w en n)
  show ?case by (simp add: lag_st_refl)
next
  case (8 w s ss en n)
  show ?case
    unfolding execs.simps
  proof (intro lag_st_seq)
    show "lag_st (exec w s en n) (exec (calm w) s en n)"
      using "8.IH"(1) "8.prems" by simp
  next
    fix en1 evs n1
    assume "exec w s en n = (None, en1, evs, n1)"
    from "8.IH"(2) [OF this [symmetric]] "8.prems"
    show "lag_st (execs w ss en1 n1) (execs (calm w) ss en1 n1)"
      by simp
  qed
qed

text \<open>
  A run of a program without exception handlers either is the run with a library that
  never raises, or ends in an error after an initial part of that run's trace.
\<close>

lemma run_calm:
  assumes "list_all no_try prog"
  shows "run w prog = run (calm w) prog
    \<or> (fst (run w prog) \<noteq> None
        \<and> prefix (snd (snd (run w prog))) (snd (snd (run (calm w) prog))))"
proof -
  have "lag_st (execs w prog builtins 0) (execs (calm w) prog builtins 0)"
    using assms by (rule lag_exec_execs)
  then show ?thesis
    by (cases "execs w prog builtins 0"; cases "execs (calm w) prog builtins 0")
      (auto simp: lag_st_def run_def)
qed


lemma cupy_structure:
  "list_all no_try poststack_cupy \<and> sum_list (map conditionals poststack_cupy) = 1
   \<and> last poststack_cupy = If (BinOp (Name ''rank'') Eq (Num 0)) (cupy_check @ cupy_plots) []"
  by (simp add: poststack_cupy_def cupy_imports_def cupy_init_def cupy_model_def
      cupy_arrays_def cupy_operator_def cupy_data_def cupy_cgls_def cupy_normal_def
      cupy_stacked_def cupy_report_def cupy_check_def cupy_plots_def)

lemma nccl_structure:
  "list_all no_try poststack_nccl \<and> sum_list (map conditionals poststack_nccl) = 1
   \<and> last poststack_nccl = If (BinOp (Name ''rank'') Eq (Num 0)) (nccl_check @ nccl_plots) []"
  by (simp add: poststack_nccl_def nccl_imports_def nccl_init_def nccl_model_def
      nccl_arrays_def nccl_operator_def nccl_data_def nccl_cgls_def nccl_normal_def
      nccl_stacked_def nccl_report_def nccl_check_def nccl_plots_def)

text \<open>
  C6: neither script contains failure-handling logic. Each script has no \<open>try\<close> statement
  anywhere, has exactly one conditional, which is its last statement and tests
  \<open>rank == 0\<close> with no \<open>else\<close> branch, and in every run an operation on which the library
  raises is the last operation performed: its error escapes the script.
\<close>

theorem C6_errors_escape:
  assumes "prog = poststack_cupy \<or> prog = poststack_nccl"
  shows "list_all no_try prog \<and> sum_list (map conditionals prog) = 1
    \<and> (\<exists>body. last prog = If (BinOp (Name ''rank'') Eq (Num 0)) body [])
    \<and> (\<forall>w r en evs i e.
          run w prog = (r, en, evs) \<and> i < length evs \<and> raises w i (evs ! i) = Some e
          \<longrightarrow> r = Some e \<and> Suc i = length evs)"
proof -
  have s: "list_all no_try prog \<and> sum_list (map conditionals prog) = 1
      \<and> (\<exists>body. last prog = If (BinOp (Name ''rank'') Eq (Num 0)) body [])"
    using assms cupy_structure nccl_structure by auto
  then have "list_all no_try prog"
    by simp
  then have "\<forall>w r en evs i e.
      run w prog = (r, en, evs) \<and> i < length evs \<and> raises w i (evs ! i) = Some e
      \<longrightarrow> r = Some e \<and> Suc i = length evs"
    using raise_escapes by blast
  with s show ?thesis
    by simp
qed

text \<open>
  A run in which \<open>np.load\<close> raises: the sixteenth operation of the CuPy script is the
  last one, and the error it raised is the outcome of the run.
\<close>

lemma load_fails_trace:
  "run w_load_fails poststack_cupy = (r, en, evs)
   \<Longrightarrow> 15 < length evs \<and> raises w_load_fails 15 (evs ! 15) = Some (LibraryError 1)"
  unfolding poststack_cupy_def cupy_imports_def cupy_init_def cupy_model_def w_load_fails_def
  by (simp only: run_eval world.simps cong: prod.case_cong_weak) auto

theorem C6_errors_escape_witness:
  "(poststack_cupy = poststack_cupy \<or> poststack_cupy = poststack_nccl)
   \<and> fst (run w_load_fails poststack_cupy) = Some (LibraryError 1)
   \<and> length (snd (snd (run w_load_fails poststack_cupy))) = 16"
proof -
  obtain r en evs where run: "run w_load_fails poststack_cupy = (r, en, evs)"
    by (cases "run w_load_fails poststack_cupy") auto
  from load_fails_trace [OF run]
  have "run w_load_fails poststack_cupy = (r, en, evs) \<and> 15 < length evs
      \<and> raises w_load_fails 15 (evs ! 15) = Some (LibraryError 1)"
    using run by simp
  with C6_errors_escape [of poststack_cupy]
  have "r = Some (LibraryError 1) \<and> Suc 15 = length evs"
    by blast
  with run show ?thesis
    by simp
qed


section \<open>Shapes and contents of the model arrays\<close>

lemma length_tab2 [simp]: "length (tab2 A B f) = A * B"
  by (induction A) (simp_all add: tab2_def)

lemma tab2_Suc: "tab2 (Suc A) B f = tab2 A B f @ map (f A) [0..<B]"
  by (simp add: tab2_def)

lemma nth_tab2: "i < A \<Longrightarrow> j < B \<Longrightarrow> tab2 A B f ! (i * B + j) = f i j"
proof (induction A)
  case 0
  then show ?case by simp
next
  case (Suc A)
  show ?case
  proof (cases "i < A")
    case True
    then have "Suc i \<le> A" by simp
    then have "Suc i * B \<le> A * B" by (rule mult_le_mono1)
    with Suc.prems have "i * B + j < A * B" by simp
    with Suc.IH True Suc.prems show ?thesis
      by (simp add: tab2_Suc nth_append)
  next
    case False
    with Suc.prems have "i = A" by simp
    with Suc.prems show ?thesis
      by (simp add: tab2_Suc nth_append)
  qed
qed

lemma tab2_cong:
  "(\<And>i j. i < A \<Longrightarrow> j < B \<Longrightarrow> f i j = g i j) \<Longrightarrow> tab2 A B f = tab2 A B g"
  unfolding tab2_def by (intro arg_cong [where f = concat] map_cong refl) simp

lemma length_tab3 [simp]: "length (tab3 A B C f) = A * B * C"
  by (induction A) (simp_all add: tab3_def algebra_simps)

lemma tab3_Suc: "tab3 (Suc A) B C f = tab3 A B C f @ tab2 B C (f A)"
  by (simp add: tab3_def)

lemma nth_tab3:
  "i < A \<Longrightarrow> j < B \<Longrightarrow> l < C \<Longrightarrow> tab3 A B C f ! ((i * B + j) * C + l) = f i j l"
proof (induction A)
  case 0
  then show ?case by simp
next
  case (Suc A)
  have inner: "j * C + l < B * C"
  proof -
    have "Suc j \<le> B" using Suc.prems by simp
    then have "Suc j * C \<le> B * C" by (rule mult_le_mono1)
    with Suc.prems show ?thesis by simp
  qed
  have split: "(i * B + j) * C + l = i * (B * C) + (j * C + l)"
    by (simp add: algebra_simps)
  show ?case
  proof (cases "i < A")
    case True
    then have "Suc i \<le> A" by simp
    then have "Suc i * (B * C) \<le> A * (B * C)" by (rule mult_le_mono1)
    with inner have "(i * B + j) * C + l < A * B * C"
      by (simp add: split algebra_simps)
    with Suc.IH True Suc.prems show ?thesis
      by (simp add: tab3_Suc nth_append)
  next
    case False
    with Suc.prems have i: "i = A" by simp
    have "(i * B + j) * C + l = length (tab3 A B C f) + (j * C + l)"
      using i by (simp add: algebra_simps)
    then have "tab3 (Suc A) B C f ! ((i * B + j) * C + l) = tab2 B C (f A) ! (j * C + l)"
      by (simp only: tab3_Suc nth_append_length_plus)
    also have "\<dots> = f A j l"
      using Suc.prems by (simp add: nth_tab2)
    finally show ?thesis
      using i by simp
  qed
qed

lemma block_tab3:
  "j < A \<Longrightarrow> take (B * C) (drop (j * (B * C)) (tab3 A B C f)) = tab2 B C (f j)"
proof (induction A)
  case 0
  then show ?case by simp
next
  case (Suc A)
  show ?case
  proof (cases "j < A")
    case True
    then have "Suc j \<le> A" by simp
    then have "Suc j * (B * C) \<le> A * (B * C)" by (rule mult_le_mono1)
    then have "j * (B * C) + B * C \<le> A * B * C"
      by (simp add: algebra_simps)
    with Suc.IH True show ?thesis
      by (simp add: tab3_Suc)
  next
    case False
    with Suc.prems have "j = A" by simp
    then show ?thesis
      by (simp add: tab3_Suc algebra_simps)
  qed
qed

lemma third_in_range: "i < (c + 2) div 3 \<Longrightarrow> 3 * i < (c::nat)"
  by arith

lemma cell_in_range: "k < r \<Longrightarrow> j < c \<Longrightarrow> k * c + j < r * (c::nat)"
proof -
  assume k: "k < r" and j: "j < c"
  from k have "Suc k \<le> r" by simp
  then have "Suc k * c \<le> r * c" by (rule mult_le_mono1)
  with j show ?thesis by simp
qed

lemma m_of_2d:
  "shape model = [r, c] \<Longrightarrow> m_of model = Inr (every_third_column r c (np_log model))"
  by (simp add: m_of_def)

lemma m3d_i_of_2d:
  "shape model = [r, c] \<Longrightarrow>
   m3d_i_of model =
     Inr (transpose_210 r ((c + 2) div 3) (1 * ny_i)
       (tile_last r ((c + 2) div 3) 1 ny_i
         (newaxis r ((c + 2) div 3) (every_third_column r c (np_log model)))))"
  by (simp add: m3d_i_of_def m_of_2d every_third_column_def)

text \<open>
  C8: the per-rank model \<open>m3d_i\<close> is \<open>m\<close> replicated along a new first axis and
  transposed. For a loaded model of shape \<open>(nz, nx0)\<close>, \<open>m\<close> has the entries
  \<open>m[k, i] = ln (model[k, 3 i])\<close>, \<open>m3d_i\<close> has shape \<open>(20, nx, nz)\<close> with \<open>nx\<close> the
  number of kept columns, and \<open>m3d_i[j, :, :]\<close> is \<open>m.T\<close> for every \<open>j < 20\<close>.
\<close>

theorem C8_tiled_model:
  assumes "shape model = [nz0, nx0]" and "well_shaped model"
  shows "\<exists>m a. m_of model = Inr m \<and> m3d_i_of model = Inr a
    \<and> shape m = [nz0, (nx0 + 2) div 3]
    \<and> (\<forall>k<nz0. \<forall>i<(nx0 + 2) div 3. at2 m k i = ln (at2 model k (3 * i)))
    \<and> shape a = [20, (nx0 + 2) div 3, nz0]
    \<and> (\<forall>j<20. slice_first a j = Inr (transpose2 nz0 ((nx0 + 2) div 3) m))"
proof -
  define c where "c = (nx0 + 2) div 3"
  define m where "m = every_third_column nz0 nx0 (np_log model)"
  define a where "a = transpose_210 nz0 c (1 * ny_i) (tile_last nz0 c 1 ny_i (newaxis nz0 c m))"
  have len: "length (data model) = nz0 * nx0"
    using assms by (simp add: well_shaped_def)
  have m: "m_of model = Inr m"
    using assms(1) by (simp add: m_of_2d m_def)
  have a: "m3d_i_of model = Inr a"
    using assms(1) by (simp add: m3d_i_of_2d a_def m_def c_def)
  have sm: "shape m = [nz0, c]"
    by (simp add: m_def every_third_column_def c_def)
  have dm: "data m = tab2 nz0 c (\<lambda>i j. map ln (data model) ! (i * nx0 + 3 * j))"
    by (simp add: m_def every_third_column_def np_log_def c_def)
  have entries: "at2 m k i = ln (at2 model k (3 * i))" if "k < nz0" and "i < c" for k i
  proof -
    have "3 * i < nx0"
      using that(2) unfolding c_def by (rule third_in_range)
    with that(1) have "k * nx0 + 3 * i < nz0 * nx0"
      by (rule cell_in_range)
    then show ?thesis
      using that len assms(1) by (simp add: at2_def sm dm nth_tab2)
  qed
  have sa: "shape a = [20, c, nz0]"
    by (simp add: a_def transpose_210_def ny_i_def)
  have slices: "slice_first a j = Inr (transpose2 nz0 c m)" if "j < 20" for j
  proof -
    have "take (c * nz0) (drop (j * (c * nz0)) (data a))
        = tab2 c nz0 (\<lambda>x z. data (tile_last nz0 c 1 ny_i (newaxis nz0 c m)) ! ((z * c + x) * 20 + j))"
      using that by (simp add: a_def transpose_210_def ny_i_def block_tab3)
    also have "\<dots> = tab2 c nz0 (\<lambda>x z. data m ! (z * c + x))"
    proof (rule tab2_cong)
      fix x z
      assume "x < c" and "z < nz0"
      then show "data (tile_last nz0 c 1 ny_i (newaxis nz0 c m)) ! ((z * c + x) * 20 + j)
          = data m ! (z * c + x)"
        using that nth_tab3 [of z nz0 x c j 20]
        by (simp add: tile_last_def newaxis_def ny_i_def)
    qed
    finally show ?thesis
      using that sa by (simp add: slice_first_def transpose2_def)
  qed
  show ?thesis
    using m a sm entries sa slices unfolding c_def by blast
qed

theorem C8_tiled_model_witness:
  "shape model0 = [2, 4] \<and> well_shaped model0
   \<and> (\<exists>m a. m_of model0 = Inr m \<and> m3d_i_of model0 = Inr a
        \<and> shape m = [2, 2] \<and> shape a = [20, 2, 2]
        \<and> at2 m 1 1 = ln (at2 model0 1 3)
        \<and> slice_first a 7 = Inr (transpose2 2 2 m))"
proof -
  have h: "shape model0 = [2, 4]" "well_shaped model0"
    by (simp_all add: model0_def well_shaped_def)
  from C8_tiled_model [OF h] obtain m a where
    "m_of model0 = Inr m" "m3d_i_of model0 = Inr a" "shape m = [2, (4 + 2) div 3]"
    "\<forall>k<2. \<forall>i<(4 + 2) div 3. at2 m k i = ln (at2 model0 k (3 * i))"
    "shape a = [20, (4 + 2) div 3, 2]"
    "\<forall>j<20. slice_first a j = Inr (transpose2 2 ((4 + 2) div 3) m)"
    by blast
  then have "m_of model0 = Inr m \<and> m3d_i_of model0 = Inr a
      \<and> shape m = [2, 2] \<and> shape a = [20, 2, 2]
      \<and> at2 m 1 1 = ln (at2 model0 1 3)
      \<and> slice_first a 7 = Inr (transpose2 2 2 m)"
    by simp
  with h show ?thesis
    by blast
qed


lemma all_ok_map:
  "(\<And>x. x \<in> set xs \<Longrightarrow> f x = Inr (g x)) \<Longrightarrow> all_ok (map f xs) = Inr (map g xs)"
  by (induction xs) simp_all

lemma smooth_shape:
  assumes "\<forall>n axis a b. filt n axis a = Inr b \<longrightarrow> shape b = shape a"
    and "smooth filt a = Inr d"
  shows "shape d = shape a"
proof -
  from assms(2) obtain b c where b: "filt 5 0 a = Inr b" and c: "filt 30 1 b = Inr c"
    and d: "filt 20 2 c = Inr d"
    by (auto simp: smooth_def split: sum.splits)
  have "shape b = shape a" "shape c = shape b" "shape d = shape c"
    using assms(1) b c d by blast+
  then show ?thesis
    by simp
qed

lemma all_ok_smooth:
  assumes "\<forall>n axis a b. filt n axis a = Inr b \<longrightarrow> shape b = shape a"
    and "\<forall>t\<in>set ts. \<exists>b. smooth filt t = Inr b"
  shows "\<exists>bs. all_ok (map (smooth filt) ts) = Inr bs \<and> map shape bs = map shape ts"
  using assms(2)
proof (induction ts)
  case Nil
  then show ?case by simp
next
  case (Cons t ts)
  then obtain b where b: "smooth filt t = Inr b"
    by auto
  then have "shape b = shape t"
    using smooth_shape [OF assms(1)] by blast
  with Cons b show ?case
    by auto
qed

lemma sum_first_axes:
  "\<forall>a\<in>set arrs. hd (shape a) = n \<Longrightarrow> sum_list (map (\<lambda>b. hd (shape b)) arrs) = n * length arrs"
  by (induction arrs) simp_all

lemma concatenate_same:
  assumes "arrs \<noteq> []" and "\<forall>a\<in>set arrs. shape a = n # dims"
  shows "np_concatenate arrs =
    Inr \<lparr>shape = (n * length arrs) # dims, data = concat (map data arrs)\<rparr>"
proof -
  have total: "sum_list (map (\<lambda>b. hd (shape b)) arrs) = n * length arrs"
    using assms(2) by (intro sum_first_axes) simp
  obtain a rest where arrs: "arrs = a # rest"
    using assms(1) by (cases arrs) auto
  have "list_all (\<lambda>b. shape b \<noteq> [] \<and> tl (shape b) = dims) rest"
    using assms(2) arrs by (simp add: list_all_iff)
  moreover have "shape a = n # dims"
    using assms(2) arrs by simp
  ultimately show ?thesis
    using total arrs by (simp add: np_concatenate_def)
qed

lemma cupy_dist_arrays:
  "map (kw_value ''global_shape'') (calls_of DistributedArray poststack_cupy) =
     replicate 3 (Some (BinOp (BinOp (Name ''ny'') Mult (Name ''nx'')) Mult (Name ''nz'')))"
  by (simp add: calls_of_def DistributedArray_def poststack_cupy_def cupy_imports_def
      cupy_init_def cupy_model_def cupy_arrays_def cupy_operator_def cupy_data_def
      cupy_cgls_def cupy_normal_def cupy_stacked_def cupy_report_def cupy_check_def
      cupy_plots_def numeral_3_eq_3)

lemma nccl_dist_arrays:
  "map (kw_value ''global_shape'') (calls_of DistributedArray poststack_nccl) =
     replicate 3 (Some (BinOp (BinOp (Name ''ny'') Mult (Name ''nx'')) Mult (Name ''nz'')))"
  by (simp add: calls_of_def DistributedArray_def poststack_nccl_def nccl_imports_def
      nccl_init_def nccl_model_def nccl_arrays_def nccl_operator_def nccl_data_def
      nccl_cgls_def nccl_normal_def nccl_stacked_def nccl_report_def nccl_check_def
      nccl_plots_def numeral_3_eq_3)

text \<open>
  C9: with \<open>P\<close> ranks that have loaded models of one shape, a filter that returns an array
  of the shape of its input whenever it returns, and a smoothing that returns on the tile
  of every rank, every rank reaches line 82 with \<open>ny\<close> the sum over the ranks of their
  local sizes, which is \<open>20 P\<close>; \<open>m3d\<close> and \<open>mback3d\<close> are the concatenations of the
  ranks' local arrays, of shape \<open>(ny, nx, nz)\<close>; and the global shape of the distributed
  arrays is \<open>ny * nx * nz\<close>, which is the expression given as \<open>global_shape\<close> to each of
  the three \<open>DistributedArray\<close> constructions of either script.
\<close>

theorem C9_global_sizes:
  assumes "r < length models"
    and "\<forall>model\<in>set models. shape model = [nz0, nx0]"
    and "\<forall>n axis a b. filt n axis a = Inr b \<longrightarrow> shape b = shape a"
    and "\<forall>model\<in>set models. \<exists>t b. m3d_i_of model = Inr t \<and> smooth filt t = Inr b"
  shows "\<exists>v tiles backs.
      rank_arrays filt models r = Inr v
    \<and> all_ok (map m3d_i_of models) = Inr tiles
    \<and> all_ok (map (smooth filt) tiles) = Inr backs
    \<and> (\<forall>t\<in>set tiles. hd (shape t) = 20)
    \<and> local_ny v = 20 \<and> nx v = (nx0 + 2) div 3 \<and> nz v = nz0
    \<and> ny v = allreduce (map (\<lambda>t. hd (shape t)) tiles)
    \<and> ny v = 20 * length models
    \<and> m3d v = \<lparr>shape = [ny v, nx v, nz v], data = concat (map data tiles)\<rparr>
    \<and> mback3d v = \<lparr>shape = [ny v, nx v, nz v], data = concat (map data backs)\<rparr>
    \<and> global_shape v = ny v * nx v * nz v
    \<and> global_shape v = prod_list (shape (m3d v))
    \<and> map (kw_value ''global_shape'') (calls_of DistributedArray poststack_cupy) =
        replicate 3 (Some (BinOp (BinOp (Name ''ny'') Mult (Name ''nx'')) Mult (Name ''nz'')))
    \<and> map (kw_value ''global_shape'') (calls_of DistributedArray poststack_nccl) =
        replicate 3 (Some (BinOp (BinOp (Name ''ny'') Mult (Name ''nx'')) Mult (Name ''nz'')))"
proof -
  define c where "c = (nx0 + 2) div 3"
  define tile where "tile = (\<lambda>model. transpose_210 nz0 c (1 * ny_i)
      (tile_last nz0 c 1 ny_i (newaxis nz0 c (every_third_column nz0 nx0 (np_log model)))))"
  define tiles where "tiles = map tile models"
  have one: "m3d_i_of model = Inr (tile model)" if "model \<in> set models" for model
    using that assms(2) by (simp add: m3d_i_of_2d tile_def c_def)
  have tiles: "all_ok (map m3d_i_of models) = Inr tiles"
    unfolding tiles_def by (intro all_ok_map) (simp add: one)
  have st: "shape t = [20, c, nz0]" if "t \<in> set tiles" for t
    using that by (auto simp: tiles_def tile_def transpose_210_def ny_i_def)
  have returns: "\<forall>t\<in>set tiles. \<exists>b. smooth filt t = Inr b"
  proof
    fix t
    assume "t \<in> set tiles"
    then obtain model where model: "model \<in> set models" and t: "t = tile model"
      by (auto simp: tiles_def)
    from assms(4) model obtain t' b where "m3d_i_of model = Inr t'" "smooth filt t' = Inr b"
      by blast
    with one [OF model] t show "\<exists>b. smooth filt t = Inr b"
      by auto
  qed
  obtain backs where backs: "all_ok (map (smooth filt) tiles) = Inr backs"
    and sb: "map shape backs = map shape tiles"
    using all_ok_smooth [OF assms(3) returns] by blast
  have len: "length tiles = length models" "length backs = length models"
    using sb by (simp_all add: tiles_def) (metis length_map tiles_def)
  have sb': "shape b = [20, c, nz0]" if "b \<in> set backs" for b
  proof -
    from that obtain i where i: "i < length backs" "b = backs ! i"
      by (auto simp: in_set_conv_nth)
    then have "shape b = map shape tiles ! i"
      using sb by (metis nth_map)
    also have "\<dots> = shape (tiles ! i)"
      using i len by simp
    finally show ?thesis
      using st i len by simp
  qed
  have ne: "tiles \<noteq> []" "backs \<noteq> []"
    using assms(1) len by auto
  have whole: "np_concatenate (allgather tiles)
      = Inr \<lparr>shape = [20 * length models, c, nz0], data = concat (map data tiles)\<rparr>"
    using concatenate_same [OF ne(1), of 20 "[c, nz0]"] st len by (simp add: allgather_def)
  have whole_back: "np_concatenate (allgather backs)
      = Inr \<lparr>shape = [20 * length models, c, nz0], data = concat (map data backs)\<rparr>"
    using concatenate_same [OF ne(2), of 20 "[c, nz0]"] sb' len by (simp add: allgather_def)
  have total: "allreduce (map (\<lambda>t. hd (shape t)) tiles) = 20 * length models"
    using sum_first_axes [of tiles 20] st len by (simp add: allreduce_def)
  have sr: "shape (tiles ! r) = [20, c, nz0]"
    using st assms(1) len by simp
  define v where "v = \<lparr>local_ny = 20, nx = c, nz = nz0, ny = 20 * length models,
      m3d_i = tiles ! r, mback3d_i = backs ! r,
      m3d = \<lparr>shape = [20 * length models, c, nz0], data = concat (map data tiles)\<rparr>,
      mback3d = \<lparr>shape = [20 * length models, c, nz0], data = concat (map data backs)\<rparr>,
      global_shape = 20 * length models * c * nz0\<rparr>"
  have run: "rank_arrays filt models r = Inr v"
    by (simp add: rank_arrays_def tiles backs sr whole whole_back total v_def)
  have "\<forall>t\<in>set tiles. hd (shape t) = 20"
    using st by simp
  moreover have "local_ny v = 20 \<and> nx v = (nx0 + 2) div 3 \<and> nz v = nz0"
    by (simp add: v_def c_def)
  moreover have "ny v = allreduce (map (\<lambda>t. hd (shape t)) tiles)"
    using total by (simp add: v_def)
  moreover have "ny v = 20 * length models"
    by (simp add: v_def)
  moreover have "m3d v = \<lparr>shape = [ny v, nx v, nz v], data = concat (map data tiles)\<rparr>"
    by (simp add: v_def)
  moreover have "mback3d v = \<lparr>shape = [ny v, nx v, nz v], data = concat (map data backs)\<rparr>"
    by (simp add: v_def)
  moreover have "global_shape v = ny v * nx v * nz v"
    by (simp add: v_def)
  moreover have "global_shape v = prod_list (shape (m3d v))"
    by (simp add: v_def)
  ultimately show ?thesis
    using run tiles backs cupy_dist_arrays nccl_dist_arrays by blast
qed

theorem C9_global_sizes_witness:
  "1 < length [model1, model1] \<and> shape model1 = [61, 271]
   \<and> (\<exists>v. rank_arrays filt_pad [model1, model1] 1 = Inr v \<and> ny v = 40
        \<and> nx v = 91 \<and> nz v = 61
        \<and> shape (m3d v) = [40, 91, 61] \<and> shape (mback3d v) = [40, 91, 61]
        \<and> global_shape v = 222040)"
proof -
  have h1: "1 < length [model1, model1]"
    by simp
  have s1: "shape model1 = [61, 271]"
    by (simp add: model1_def)
  then have h2: "\<forall>model\<in>set [model1, model1]. shape model = [61, 271]"
    by simp
  have h3: "\<forall>n axis a b. filt_pad n axis a = Inr b \<longrightarrow> shape b = shape a"
    by (simp add: filt_pad_def)
  have "\<exists>t b. m3d_i_of model1 = Inr t \<and> smooth filt_pad t = Inr b"
    by (simp add: m3d_i_of_2d [OF s1] smooth_def filt_pad_def transpose_210_def ny_i_def)
  then have h4: "\<forall>model\<in>set [model1, model1].
      \<exists>t b. m3d_i_of model = Inr t \<and> smooth filt_pad t = Inr b"
    by simp
  have "\<exists>v. rank_arrays filt_pad [model1, model1] 1 = Inr v \<and> ny v = 40
      \<and> nx v = 91 \<and> nz v = 61
      \<and> shape (m3d v) = [40, 91, 61] \<and> shape (mback3d v) = [40, 91, 61]
      \<and> global_shape v = 222040"
    using C9_global_sizes [OF h1 h2 h3 h4]
  proof (elim exE conjE)
    fix v tiles backs
    assume v: "rank_arrays filt_pad [model1, model1] 1 = Inr v"
      and x: "nx v = (271 + 2) div 3" and z: "nz v = 61"
      and n: "ny v = 20 * length [model1, model1]"
      and m: "m3d v = \<lparr>shape = [ny v, nx v, nz v], data = concat (map data tiles)\<rparr>"
      and b: "mback3d v = \<lparr>shape = [ny v, nx v, nz v], data = concat (map data backs)\<rparr>"
      and g: "global_shape v = ny v * nx v * nz v"
    show ?thesis
      using v x z n m b g by simp
  qed
  with h1 s1 show ?thesis
    by simp
qed

end
